theory Spec2Isabelle
  imports Complex_Main "HOL-Library.Word"
begin

unbundle bit_operations_syntax

section \<open>Run-time failures\<close>

text \<open>
  The Go code has no \<^verbatim>\<open>recover\<close>: a run-time panic (nil pointer dereference, index out
  of range, \<^verbatim>\<open>big.NewRat\<close> with a zero denominator) ends the process. Every function that
  can panic returns \<open>panic + 'a\<close>, with \<open>Inl\<close> for the panic.
\<close>

datatype panic = NilPointerDereference | IndexOutOfRange | DivisionByZero

definition bindP :: "panic + 'a \<Rightarrow> ('a \<Rightarrow> panic + 'b) \<Rightarrow> panic + 'b" where
  "bindP r f = (case r of Inl e \<Rightarrow> Inl e | Inr v \<Rightarrow> f v)"

definition deref :: "'a option \<Rightarrow> panic + 'a" where
  \<comment> \<open>\<^verbatim>\<open>*p\<close> read through a pointer\<close>
  "deref p = (case p of None \<Rightarrow> Inl NilPointerDereference | Some v \<Rightarrow> Inr v)"

definition store :: "'a option \<Rightarrow> 'a \<Rightarrow> panic + 'a option" where
  \<comment> \<open>\<^verbatim>\<open>*p = v\<close> written through a pointer: the cell the pointer names afterwards\<close>
  "store p v = (case p of None \<Rightarrow> Inl NilPointerDereference | Some _ \<Rightarrow> Inr (Some v))"

section \<open>The decoded ledger data (package xdr of the Stellar SDK)\<close>

text \<open>
  The XDR types are those of the external decoder library; only the fields the source
  reads are kept. An account id is represented by its strkey address, so that
  \<^verbatim>\<open>Address()\<close> is the identity on it; on a nil pointer the library's method returns the
  empty string. Unions are datatypes: a decoded union always carries the arm its
  discriminant names, so the \<^verbatim>\<open>Must...\<close> accessors of the source cannot fail.
\<close>

type_synonym AccountId = string
type_synonym Time = int

definition Address :: "AccountId \<Rightarrow> string" where
  "Address a = a"

definition AddressPtr :: "AccountId option \<Rightarrow> string" where
  "AddressPtr p = (case p of None \<Rightarrow> [] | Some a \<Rightarrow> Address a)"

datatype xdr_Asset =
    AssetTypeNative
  | AssetTypeCreditAlphanum4 string AccountId
  | AssetTypeCreditAlphanum12 string AccountId

fun MustExtract :: "xdr_Asset \<Rightarrow> string \<times> string \<times> string" where
  "MustExtract AssetTypeNative = (''native'', [], [])"
| "MustExtract (AssetTypeCreditAlphanum4 c i) = (''credit_alphanum4'', c, Address i)"
| "MustExtract (AssetTypeCreditAlphanum12 c i) = (''credit_alphanum12'', c, Address i)"

record xdr_Price =
  PriceN :: int
  PriceD :: int

record xdr_CreateAccountOp =
  caDestination :: AccountId
  caStartingBalance :: int

record xdr_PaymentOp =
  payDestination :: AccountId
  payAsset :: xdr_Asset
  payAmount :: int

record xdr_PathPaymentOp =
  ppSendAsset :: xdr_Asset
  ppSendMax :: int
  ppDestination :: AccountId
  ppDestAsset :: xdr_Asset
  ppDestAmount :: int
  ppPath :: "xdr_Asset list"

record xdr_ManageOfferOp =
  moSelling :: xdr_Asset
  moBuying :: xdr_Asset
  moAmount :: int
  moPrice :: xdr_Price
  moOfferId :: int

record xdr_CreatePassiveOfferOp =
  cpSelling :: xdr_Asset
  cpBuying :: xdr_Asset
  cpAmount :: int
  cpPrice :: xdr_Price

record xdr_SetOptionsOp =
  soInflationDest :: "AccountId option"
  soClearFlags :: "32 word option"
  soSetFlags :: "32 word option"
  soMasterWeight :: "32 word option"
  soLowThreshold :: "32 word option"
  soMedThreshold :: "32 word option"
  soHighThreshold :: "32 word option"
  soHomeDomain :: "string option"

text \<open>
  The operation body is the union over the operation type. The six arms the source
  decodes are kept (their discriminants are 0 to 5); every other operation type
  (change-trust, allow-trust, account-merge, inflation, manage-data, bump-sequence, or a
  type of a later protocol) is \<open>OtherOperation\<close> with its numeric discriminant, which is
  then none of 0 to 5. \<open>knownKind\<close> says that the discriminant is one of the six.
\<close>

datatype xdr_OperationBody =
    CreateAccount xdr_CreateAccountOp
  | Payment xdr_PaymentOp
  | PathPayment xdr_PathPaymentOp
  | ManageOffer xdr_ManageOfferOp
  | CreatePassiveOffer xdr_CreatePassiveOfferOp
  | SetOptions xdr_SetOptionsOp
  | OtherOperation int

fun OperationTypeString :: "xdr_OperationBody \<Rightarrow> string" where
  "OperationTypeString (CreateAccount _) = ''OperationTypeCreateAccount''"
| "OperationTypeString (Payment _) = ''OperationTypePayment''"
| "OperationTypeString (PathPayment _) = ''OperationTypePathPayment''"
| "OperationTypeString (ManageOffer _) = ''OperationTypeManageOffer''"
| "OperationTypeString (CreatePassiveOffer _) = ''OperationTypeCreatePassiveOffer''"
| "OperationTypeString (SetOptions _) = ''OperationTypeSetOptions''"
| "OperationTypeString (OtherOperation k) =
     (if k = 6 then ''OperationTypeChangeTrust''
      else if k = 7 then ''OperationTypeAllowTrust''
      else if k = 8 then ''OperationTypeAccountMerge''
      else if k = 9 then ''OperationTypeInflation''
      else if k = 10 then ''OperationTypeManageData''
      else if k = 11 then ''OperationTypeBumpSequence''
      else [])"

fun knownKind :: "xdr_OperationBody \<Rightarrow> bool" where
  "knownKind (OtherOperation k) = (0 \<le> k \<and> k \<le> 5)"
| "knownKind _ = True"

record xdr_Operation =
  SourceAccount :: "AccountId option"
  Body :: xdr_OperationBody

section \<open>The document model (package es)\<close>

type_synonym Memo = string

record Asset =
  Code :: string
  Issuer :: string
  Key :: string

record Price =
  N :: int
  D :: int

record Thresholds =
  Low :: "int option"
  Medium :: "int option"
  High :: "int option"
  Master :: "int option"

record AccountFlags =
  AuthRequired :: bool
  AuthRevocable :: bool
  AuthImmutable :: bool

text \<open>
  Modelled from the spec: the Transaction document (its declaration and its constructor
  \<^verbatim>\<open>NewTransaction\<close> are not among the sources). The fields are those \<^verbatim>\<open>NewOperation\<close> and the
  bulk builders read; \<open>txIndex\<close> is a byte, as \<^verbatim>\<open>TxIndex: t.Index\<close> requires.
\<close>

record Transaction =
  txID :: string
  txIndex :: "8 word"
  txSeq :: int
  txOrder :: string
  txCloseTime :: Time
  txSourceAccountID :: string
  txMemo :: "Memo option"

text \<open>
  The Operation document. \<open>OfferPrice\<close> is the exact quotient the source hands to
  \<^verbatim>\<open>Float64()\<close>; the rounding to the nearest double is not modelled. The embedded
  \<^verbatim>\<open>*Memo\<close> is the field \<open>Memo\<close>.
\<close>

record Operation =
  TxID :: string
  TxIndex :: "8 word"
  Index :: "8 word"
  Seq :: int
  Order :: string
  CloseTime :: Time
  Succesful :: bool
  ResultCode :: int
  TxSourceAccountID :: string
  Type :: string
  SourceAccountID :: string
  SourceAsset :: "Asset option"
  SourceAmount :: int
  DestinationAccountID :: string
  DestinationAsset :: "Asset option"
  DestinationAmount :: int
  OfferPrice :: rat
  OfferPriceND :: Price
  OfferID :: int
  TrustLimit :: int
  Authorize :: bool
  BumpTo :: int
  Path :: "Asset list option"
  Thresholds :: "Thresholds option"
  HomeDomain :: string
  InflationDest :: string
  SetFlags :: "AccountFlags option"
  ClearFlags :: "AccountFlags option"
  Memo :: "Memo option"

section \<open>The operation decoder\<close>

text \<open>\<^verbatim>\<open>%d\<close> of \<^verbatim>\<open>fmt.Sprintf\<close> on a byte: the decimal digits of the unsigned value.\<close>

definition digit :: "nat \<Rightarrow> char" where
  "digit d = ''0123456789'' ! d"

function decimal :: "nat \<Rightarrow> string" where
  "decimal n = (if n < 10 then [digit n] else decimal (n div 10) @ [digit (n mod 10)])"
  by pat_completeness auto
termination
  by (relation "measure (\<lambda>n. n)") auto

declare decimal.simps [simp del]

definition asset :: "xdr_Asset \<Rightarrow> Asset" where
  "asset a =
     (case MustExtract a of (t, c, i) \<Rightarrow>
        if t = ''native'' then \<lparr>Code = ''native'', Issuer = [], Key = ''native''\<rparr>
        else \<lparr>Code = c, Issuer = i, Key = c @ ''-'' @ i\<rparr>)"

definition flags :: "32 word \<Rightarrow> AccountFlags" where
  "flags l = \<lparr>AuthRequired = (l AND 1 \<noteq> 0), AuthRevocable = (l AND 2 \<noteq> 0),
              AuthImmutable = (l AND 4 \<noteq> 0)\<rparr>"

definition NewRat :: "int \<Rightarrow> int \<Rightarrow> panic + rat" where
  \<comment> \<open>\<^verbatim>\<open>big.NewRat(a, b)\<close> panics when \<open>b\<close> is zero\<close>
  "NewRat a b = (if b = 0 then Inl DivisionByZero else Inr (Fract a b))"

definition newCreateAccount :: "xdr_CreateAccountOp \<Rightarrow> Operation \<Rightarrow> Operation" where
  "newCreateAccount o' op =
     op\<lparr>SourceAmount := caStartingBalance o',
        DestinationAccountID := Address (caDestination o')\<rparr>"

definition newPayment :: "xdr_PaymentOp \<Rightarrow> Operation \<Rightarrow> Operation" where
  "newPayment o' op =
     op\<lparr>SourceAmount := payAmount o',
        DestinationAccountID := Address (payDestination o'),
        SourceAsset := Some (asset (payAsset o'))\<rparr>"

definition newPathPayment :: "xdr_PathPaymentOp \<Rightarrow> Operation \<Rightarrow> Operation" where
  "newPathPayment o' op =
     op\<lparr>DestinationAccountID := Address (ppDestination o'),
        DestinationAmount := ppDestAmount o',
        DestinationAsset := Some (asset (ppDestAsset o')),
        SourceAmount := ppSendMax o',
        SourceAsset := Some (asset (ppSendAsset o')),
        Path := Some (map asset (ppPath o'))\<rparr>"

definition newManageOffer :: "xdr_ManageOfferOp \<Rightarrow> Operation \<Rightarrow> panic + Operation" where
  "newManageOffer o' op =
     (let op1 = op\<lparr>SourceAmount := moAmount o',
                    SourceAsset := Some (asset (moBuying o')),
                    OfferID := moOfferId o'\<rparr>
      in bindP (NewRat (PriceN (moPrice o')) (PriceD (moPrice o')))
           (\<lambda>q. Inr (op1\<lparr>OfferPrice := q,
                          DestinationAsset := Some (asset (moSelling o'))\<rparr>)))"

definition newCreatePassiveOffer ::
  "xdr_CreatePassiveOfferOp \<Rightarrow> Operation \<Rightarrow> panic + Operation" where
  "newCreatePassiveOffer o' op =
     (let op1 = op\<lparr>SourceAmount := cpAmount o',
                    SourceAsset := Some (asset (cpBuying o'))\<rparr>
      in bindP (NewRat (PriceN (cpPrice o')) (PriceD (cpPrice o')))
           (\<lambda>q. Inr (op1\<lparr>OfferPrice := q,
                          OfferPriceND := \<lparr>N = PriceN (cpPrice o'), D = PriceD (cpPrice o')\<rparr>,
                          DestinationAsset := Some (asset (cpSelling o'))\<rparr>)))"

text \<open>
  \<^verbatim>\<open>newSetOptions\<close>, statement by statement. \<^verbatim>\<open>&Thresholds{}\<close> is a struct of four nil
  pointers, and each threshold is written through its pointer
  (\<^verbatim>\<open>*op.Thresholds.Low = ...\<close>). The guards of the medium and the high threshold test
  \<^verbatim>\<open>o.LowThreshold\<close>, and the guards of the flags test the document's own
  \<^verbatim>\<open>op.SetFlags\<close> and \<^verbatim>\<open>op.ClearFlags\<close>, as the source has them.
\<close>

definition emptyThresholds :: Thresholds where
  "emptyThresholds = \<lparr>Low = None, Medium = None, High = None, Master = None\<rparr>"

definition setThresholds :: "xdr_SetOptionsOp \<Rightarrow> Thresholds \<Rightarrow> panic + Thresholds" where
  "setThresholds o' th0 =
     bindP (if soLowThreshold o' \<noteq> None
            then bindP (deref (soLowThreshold o'))
                   (\<lambda>v. bindP (store (Low th0) (uint v)) (\<lambda>p. Inr (th0\<lparr>Low := p\<rparr>)))
            else Inr th0)
     (\<lambda>th1.
     bindP (if soLowThreshold o' \<noteq> None
            then bindP (deref (soMedThreshold o'))
                   (\<lambda>v. bindP (store (Medium th1) (uint v)) (\<lambda>p. Inr (th1\<lparr>Medium := p\<rparr>)))
            else Inr th1)
     (\<lambda>th2.
     bindP (if soLowThreshold o' \<noteq> None
            then bindP (deref (soHighThreshold o'))
                   (\<lambda>v. bindP (store (High th2) (uint v)) (\<lambda>p. Inr (th2\<lparr>High := p\<rparr>)))
            else Inr th2)
     (\<lambda>th3.
     if soMasterWeight o' \<noteq> None
     then bindP (deref (soMasterWeight o'))
            (\<lambda>v. bindP (store (Master th3) (uint v)) (\<lambda>p. Inr (th3\<lparr>Master := p\<rparr>)))
     else Inr th3)))"

definition newSetOptions :: "xdr_SetOptionsOp \<Rightarrow> Operation \<Rightarrow> panic + Operation" where
  "newSetOptions o' op =
     (let op1 = op\<lparr>InflationDest := AddressPtr (soInflationDest o')\<rparr>
      in bindP (deref (soHomeDomain o'))
     (\<lambda>homeDomain.
     let op2 = op1\<lparr>HomeDomain := homeDomain\<rparr>
      in bindP (if soLowThreshold o' \<noteq> None \<or> soMedThreshold o' \<noteq> None
                   \<or> soHighThreshold o' \<noteq> None \<or> soMasterWeight o' \<noteq> None
                then bindP (setThresholds o' emptyThresholds)
                       (\<lambda>th. Inr (op2\<lparr>Thresholds := Some th\<rparr>))
                else Inr op2)
     (\<lambda>op3.
     bindP (if SetFlags op3 \<noteq> None
            then bindP (deref (soSetFlags o')) (\<lambda>f. Inr (op3\<lparr>SetFlags := Some (flags f)\<rparr>))
            else Inr op3)
     (\<lambda>op4.
     if ClearFlags op4 \<noteq> None
     then bindP (deref (soClearFlags o')) (\<lambda>f. Inr (op4\<lparr>ClearFlags := Some (flags f)\<rparr>))
     else Inr op4))))"

text \<open>
  The document \<^verbatim>\<open>NewOperation\<close> builds before the switch: the shared envelope, every
  other field at Go's zero value.
\<close>

definition envelope :: "Transaction \<Rightarrow> xdr_Operation \<Rightarrow> 8 word \<Rightarrow> Operation" where
  "envelope t o' n =
     \<lparr>TxID = txID t, TxIndex = txIndex t, Index = n, Seq = txSeq t,
      Order = txOrder t @ '':'' @ decimal (unat n),
      CloseTime = txCloseTime t, Succesful = True, ResultCode = 0,
      TxSourceAccountID = txSourceAccountID t,
      Type = OperationTypeString (Body o'),
      SourceAccountID =
        (case SourceAccount o' of None \<Rightarrow> txSourceAccountID t | Some a \<Rightarrow> Address a),
      SourceAsset = None, SourceAmount = 0, DestinationAccountID = [],
      DestinationAsset = None, DestinationAmount = 0, OfferPrice = 0,
      OfferPriceND = \<lparr>N = 0, D = 0\<rparr>, OfferID = 0, TrustLimit = 0, Authorize = False,
      BumpTo = 0, Path = None, Thresholds = None, HomeDomain = [], InflationDest = [],
      SetFlags = None, ClearFlags = None, Memo = txMemo t\<rparr>"

definition NewOperation :: "Transaction \<Rightarrow> xdr_Operation \<Rightarrow> 8 word \<Rightarrow> panic + Operation" where
  "NewOperation t o' n =
     (let op = envelope t o' n
      in case Body o' of
           CreateAccount c \<Rightarrow> Inr (newCreateAccount c op)
         | Payment p \<Rightarrow> Inr (newPayment p op)
         | PathPayment p \<Rightarrow> Inr (newPathPayment p op)
         | ManageOffer m \<Rightarrow> newManageOffer m op
         | CreatePassiveOffer c \<Rightarrow> newCreatePassiveOffer c op
         | SetOptions s \<Rightarrow> newSetOptions s op
         | OtherOperation _ \<Rightarrow> Inr op)"

section \<open>Ledger rows and ledger-entry changes\<close>

text \<open>
  The rows of package \<^verbatim>\<open>db\<close> and the XDR metadata, with the fields the bulk builders read:
  \<^verbatim>\<open>Envelope.Tx.Operations\<close>, \<^verbatim>\<open>Result.Result.Result.Results\<close> (a pointer to a slice, so it
  may be nil) and \<^verbatim>\<open>Meta\<close>. The transaction meta is a union: legacy operations (version 0),
  V1, or another version, for which both \<^verbatim>\<open>GetV1\<close> and \<^verbatim>\<open>GetOperations\<close> answer "not ok".
\<close>

datatype xdr_LedgerEntryData =
    AccountEntry AccountId int
  | TrustLineEntry AccountId xdr_Asset int
  | OtherEntry

datatype xdr_LedgerEntryChange =
    LedgerEntryCreated xdr_LedgerEntryData
  | LedgerEntryUpdated xdr_LedgerEntryData
  | LedgerEntryRemoved

record xdr_OperationMeta =
  omChanges :: "xdr_LedgerEntryChange list"

record xdr_TransactionMetaV1 =
  TxChanges :: "xdr_LedgerEntryChange list"
  V1Operations :: "xdr_OperationMeta list"

datatype xdr_TransactionMeta =
    MetaOperations "xdr_OperationMeta list"
  | MetaV1 xdr_TransactionMetaV1
  | MetaOther int

fun GetV1 :: "xdr_TransactionMeta \<Rightarrow> xdr_TransactionMetaV1 option" where
  "GetV1 (MetaV1 v1) = Some v1"
| "GetV1 _ = None"

fun GetOperations :: "xdr_TransactionMeta \<Rightarrow> xdr_OperationMeta list option" where
  "GetOperations (MetaOperations ms) = Some ms"
| "GetOperations _ = None"

text \<open>
  Modelled from the spec: the per-operation result (the XDR type and \<^verbatim>\<open>AppendResult\<close> are
  not among the sources). The spec says that the result code and the success flag are
  merged into the already-built Operation.
\<close>

record xdr_OperationResult =
  orSuccess :: bool
  orCode :: int

definition AppendResult :: "Operation \<Rightarrow> xdr_OperationResult \<Rightarrow> Operation" where
  "AppendResult op r = op\<lparr>Succesful := orSuccess r, ResultCode := orCode r\<rparr>"

record LedgerHeaderRow =
  rowLedgerSeq :: int
  rowCloseTime :: Time

record TxHistoryRow =
  rowTxID :: string
  rowTxLedgerSeq :: int
  rowIndex :: int
  rowSourceAccount :: AccountId
  rowMemo :: "Memo option"
  Envelope_Tx_Operations :: "xdr_Operation list"
  Result_Results :: "xdr_OperationResult list option"
  Meta :: xdr_TransactionMeta

record TxFeeHistoryRow =
  Changes :: "xdr_LedgerEntryChange list"

section \<open>Ledger header, transaction and balance documents\<close>

text \<open>
  Modelled from the spec: the LedgerHeader document and its constructor (not among the
  sources): one per ledger, with the sequence number and the close time.
\<close>

record LedgerHeader =
  hSeq :: int
  hCloseTime :: Time

definition NewLedgerHeader :: "LedgerHeaderRow \<Rightarrow> LedgerHeader" where
  "NewLedgerHeader r = \<lparr>hSeq = rowLedgerSeq r, hCloseTime = rowCloseTime r\<rparr>"

text \<open>
  Modelled from the spec: the constructor of the Transaction document (not among the
  sources): id, index within the ledger, sequence number, the ordering string
  \<^verbatim>\<open><ledgerSeq>:<txIndex>\<close>, the close time inherited from the ledger, source account and
  memo.
\<close>

definition NewTransaction :: "TxHistoryRow \<Rightarrow> Time \<Rightarrow> Transaction" where
  "NewTransaction row t =
     \<lparr>txID = rowTxID row, txIndex = word_of_int (rowIndex row),
      txSeq = rowTxLedgerSeq row,
      txOrder = decimal (nat (rowTxLedgerSeq row)) @ '':'' @ decimal (nat (rowIndex row)),
      txCloseTime = t, txSourceAccountID = Address (rowSourceAccount row),
      txMemo = rowMemo row\<rparr>"

text \<open>
  The paging token, with the fields the builders set: \<^verbatim>\<open>LedgerSeq\<close> is an \<^verbatim>\<open>int\<close>, the three
  orders are bytes (\<^verbatim>\<open>uint8\<close>).
\<close>

record PagingToken =
  LedgerSeq :: int
  TransactionOrder :: "8 word"
  OperationOrder :: "8 word"
  AuxOrder1 :: "8 word"

datatype BalanceSource = BalanceSourceMeta | BalanceSourceFee

text \<open>
  Modelled from the spec: the Balance document and the balance extractor (not among the
  sources). For every change record whose entry carries a balance (an account's native
  balance or a trustline balance) the extractor emits one Balance with the entry's
  post-change value; a removed entry contributes none. Each Balance inherits the close
  time and is stamped with the paging token and the source tag the extractor was built
  with. The extractor keeps the order of the changes.
\<close>

record Balance =
  balPagingToken :: PagingToken
  balAccountID :: string
  balAsset :: Asset
  balValue :: int
  balSource :: BalanceSource
  balCreatedAt :: Time

record BalanceExtractor =
  exChanges :: "xdr_LedgerEntryChange list"
  exCloseTime :: Time
  exSource :: BalanceSource
  exPagingToken :: PagingToken

definition NewBalanceExtractor ::
  "xdr_LedgerEntryChange list \<Rightarrow> Time \<Rightarrow> BalanceSource \<Rightarrow> PagingToken \<Rightarrow> BalanceExtractor" where
  "NewBalanceExtractor c t s p =
     \<lparr>exChanges = c, exCloseTime = t, exSource = s, exPagingToken = p\<rparr>"

fun entryBalance :: "xdr_LedgerEntryData \<Rightarrow> (string \<times> Asset \<times> int) option" where
  "entryBalance (AccountEntry a v) = Some (Address a, asset AssetTypeNative, v)"
| "entryBalance (TrustLineEntry a x v) = Some (Address a, asset x, v)"
| "entryBalance OtherEntry = None"

fun changeBalance :: "xdr_LedgerEntryChange \<Rightarrow> (string \<times> Asset \<times> int) option" where
  "changeBalance (LedgerEntryCreated d) = entryBalance d"
| "changeBalance (LedgerEntryUpdated d) = entryBalance d"
| "changeBalance LedgerEntryRemoved = None"

definition Extract :: "BalanceExtractor \<Rightarrow> Balance list" where
  "Extract e =
     List.map_filter
       (\<lambda>c. case changeBalance c of
               None \<Rightarrow> None
             | Some (a, x, v) \<Rightarrow>
                 Some \<lparr>balPagingToken = exPagingToken e, balAccountID = a, balAsset = x,
                       balValue = v, balSource = exSource e, balCreatedAt = exCloseTime e\<rparr>)
       (exChanges e)"

section \<open>The bulk buffer\<close>

text \<open>
  Modelled from the spec: \<^verbatim>\<open>SerializeForBulk\<close> (not among the sources) appends the bulk-write
  form of one document to the buffer. The buffer is the list of the documents appended,
  oldest first.
\<close>

datatype Document =
    LedgerHeaderDoc LedgerHeader
  | TransactionDoc Transaction
  | OperationDoc Operation
  | BalanceDoc Balance

type_synonym Buffer = "Document list"

definition SerializeForBulk :: "Document \<Rightarrow> Buffer \<Rightarrow> Buffer" where
  "SerializeForBulk d b = b @ [d]"

fun isOperationDoc :: "Document \<Rightarrow> bool" where
  "isOperationDoc (OperationDoc _) = True"
| "isOperationDoc _ = False"

fun isBalanceDoc :: "Document \<Rightarrow> bool" where
  "isBalanceDoc (BalanceDoc _) = True"
| "isBalanceDoc _ = False"

section \<open>The loops shared by both bulk builders\<close>

text \<open>
  The operation loop of \<^verbatim>\<open>MakeBulk\<close> and of \<^verbatim>\<open>BulkMaker.makeOperationsWithResults\<close> is the
  same computation: for the operation at index \<open>o\<close>, \<^verbatim>\<open>NewOperation(tx, &ops[o], byte(o))\<close>,
  then, when the results pointer is not nil, \<^verbatim>\<open>AppendResult(op, &(*results)[o])\<close>, which
  panics when \<open>o\<close> is not an index of the results, then \<^verbatim>\<open>SerializeForBulk\<close>. The first
  argument after the results is the index of the head of the remaining operations.
\<close>

fun operationsLoop ::
  "Transaction \<Rightarrow> xdr_Operation list \<Rightarrow> xdr_OperationResult list option \<Rightarrow> nat \<Rightarrow> Buffer
     \<Rightarrow> panic + Buffer" where
  "operationsLoop tx [] results oIndex b = Inr b"
| "operationsLoop tx (o' # ops) results oIndex b =
     bindP (NewOperation tx o' (of_nat oIndex))
       (\<lambda>op. bindP (case results of
                      None \<Rightarrow> Inr op
                    | Some rs \<Rightarrow>
                        if oIndex < length rs then Inr (AppendResult op (rs ! oIndex))
                        else Inl IndexOutOfRange)
                (\<lambda>op'. operationsLoop tx ops results (Suc oIndex)
                          (SerializeForBulk (OperationDoc op') b)))"

definition serializeBalances :: "Balance list \<Rightarrow> Buffer \<Rightarrow> Buffer" where
  \<comment> \<open>\<^verbatim>\<open>for _, balance := range bl { SerializeForBulk(balance, b) }\<close>\<close>
  "serializeBalances bl b = fold (\<lambda>balance. SerializeForBulk (BalanceDoc balance)) bl b"

text \<open>
  The loop over the operation metas of one transaction: the token carries the ledger
  sequence, the transaction order the caller computed, \<^verbatim>\<open>uint8(oIndex + 1)\<close> and the
  auxiliary order 1.
\<close>

fun metasLoop ::
  "int \<Rightarrow> Time \<Rightarrow> 8 word \<Rightarrow> xdr_OperationMeta list \<Rightarrow> nat \<Rightarrow> Buffer \<Rightarrow> Buffer" where
  "metasLoop seq' ct transactionOrder [] oIndex b = b"
| "metasLoop seq' ct transactionOrder (e # es) oIndex b =
     (let pagingToken = \<lparr>LedgerSeq = seq', TransactionOrder = transactionOrder,
                           OperationOrder = of_nat (oIndex + 1), AuxOrder1 = 1\<rparr>;
          bl = Extract (NewBalanceExtractor (omChanges e) ct BalanceSourceMeta pagingToken)
      in metasLoop seq' ct transactionOrder es (Suc oIndex) (serializeBalances bl b))"

section \<open>MakeBulk\<close>

fun MakeBulk_transactions :: "LedgerHeader \<Rightarrow> TxHistoryRow list \<Rightarrow> Buffer \<Rightarrow> panic + Buffer" where
  "MakeBulk_transactions h [] b = Inr b"
| "MakeBulk_transactions h (txRow # txs) b =
     (let ops = Envelope_Tx_Operations txRow;
          results = Result_Results txRow;
          metas = (case GetV1 (Meta txRow) of
                     Some v1 \<Rightarrow> V1Operations v1
                   | None \<Rightarrow> (case GetOperations (Meta txRow) of Some ms \<Rightarrow> ms | None \<Rightarrow> []));
          tx = NewTransaction txRow (hCloseTime h);
          b1 = SerializeForBulk (TransactionDoc tx) b
      in bindP (operationsLoop tx ops results 0 b1)
           (\<lambda>b2. MakeBulk_transactions h txs
                    (metasLoop (hSeq h) (hCloseTime h) (txIndex tx) metas 0 b2)))"

fun MakeBulk_fees :: "LedgerHeader \<Rightarrow> TxFeeHistoryRow list \<Rightarrow> nat \<Rightarrow> Buffer \<Rightarrow> Buffer" where
  "MakeBulk_fees h [] o' b = b"
| "MakeBulk_fees h (fee # fees) o' b =
     (let pagingToken = \<lparr>LedgerSeq = hSeq h, TransactionOrder = of_nat o',
                           OperationOrder = 255, AuxOrder1 = 2\<rparr>;
          bl = Extract (NewBalanceExtractor (Changes fee) (hCloseTime h) BalanceSourceFee
                          pagingToken)
      in MakeBulk_fees h fees (Suc o') (serializeBalances bl b))"

definition MakeBulk ::
  "LedgerHeaderRow \<Rightarrow> TxHistoryRow list \<Rightarrow> TxFeeHistoryRow list \<Rightarrow> Buffer \<Rightarrow> panic + Buffer" where
  "MakeBulk r txs fees b =
     (let h = NewLedgerHeader r;
          b0 = SerializeForBulk (LedgerHeaderDoc h) b
      in bindP (MakeBulk_transactions h txs b0) (\<lambda>b1. Inr (MakeBulk_fees h fees 0 b1)))"

section \<open>BulkMaker\<close>

definition fakeOperationIndex :: "8 word" where
  "fakeOperationIndex = 255"

definition balanceFromMetaAuxOrder :: "8 word" where
  "balanceFromMetaAuxOrder = 1"

definition balanceFromFeeAuxOrder :: "8 word" where
  "balanceFromFeeAuxOrder = 2"

record BulkMaker =
  ledgerRow :: LedgerHeaderRow
  ledgerHeader :: LedgerHeader
  seq :: int
  closeTime :: Time
  transactionRows :: "TxHistoryRow list"
  transactions :: "Transaction list"
  fees :: "TxFeeHistoryRow list"
  buffer :: Buffer

definition NewBulkMaker ::
  "LedgerHeaderRow \<Rightarrow> TxHistoryRow list \<Rightarrow> TxFeeHistoryRow list \<Rightarrow> Buffer \<Rightarrow> BulkMaker" where
  "NewBulkMaker l t f b =
     (let h = NewLedgerHeader l;
          txs = map (\<lambda>row. NewTransaction row (hCloseTime h)) t
      in \<lparr>ledgerRow = l, ledgerHeader = h, seq = hSeq h, closeTime = hCloseTime h,
          transactionRows = t, transactions = txs, fees = f, buffer = b\<rparr>)"

definition makeLedger :: "BulkMaker \<Rightarrow> BulkMaker" where
  "makeLedger m = m\<lparr>buffer := SerializeForBulk (LedgerHeaderDoc (ledgerHeader m)) (buffer m)\<rparr>"

definition makeTransactions :: "BulkMaker \<Rightarrow> BulkMaker" where
  "makeTransactions m =
     m\<lparr>buffer := fold (\<lambda>transaction. SerializeForBulk (TransactionDoc transaction))
                    (transactions m) (buffer m)\<rparr>"

text \<open>
  \<^verbatim>\<open>for tIndex, t := range m.transactions { row := m.transactionRows[tIndex] ... }\<close>: the
  index expression panics when the rows are fewer than the transactions.
\<close>

fun makeOperationsWithResults_loop ::
  "TxHistoryRow list \<Rightarrow> Transaction list \<Rightarrow> nat \<Rightarrow> Buffer \<Rightarrow> panic + Buffer" where
  "makeOperationsWithResults_loop rows [] tIndex b = Inr b"
| "makeOperationsWithResults_loop rows (t # ts) tIndex b =
     (if tIndex < length rows
      then (let row = rows ! tIndex;
                operations = Envelope_Tx_Operations row;
                results = Result_Results row
            in bindP (operationsLoop t operations results 0 b)
                 (\<lambda>b1. makeOperationsWithResults_loop rows ts (Suc tIndex) b1))
      else Inl IndexOutOfRange)"

definition makeOperationsWithResults :: "BulkMaker \<Rightarrow> panic + BulkMaker" where
  "makeOperationsWithResults m =
     bindP (makeOperationsWithResults_loop (transactionRows m) (transactions m) 0 (buffer m))
       (\<lambda>b. Inr (m\<lparr>buffer := b\<rparr>))"

text \<open>
  The loop of \<^verbatim>\<open>makeBalancesFromMetas\<close>. The \<^verbatim>\<open>return\<close> of the source, taken when the meta
  has neither arm, leaves the method and with it the loop: the remaining rows are not
  visited.
\<close>

fun makeBalancesFromMetas_loop ::
  "int \<Rightarrow> Time \<Rightarrow> TxHistoryRow list \<Rightarrow> nat \<Rightarrow> Buffer \<Rightarrow> Buffer" where
  "makeBalancesFromMetas_loop seq' ct [] tIndex b = b"
| "makeBalancesFromMetas_loop seq' ct (row # rows) tIndex b =
     (case GetV1 (Meta row) of
        Some v1 \<Rightarrow>
          makeBalancesFromMetas_loop seq' ct rows (Suc tIndex)
            (metasLoop seq' ct (of_nat (tIndex + 1)) (V1Operations v1) 0 b)
      | None \<Rightarrow>
          (case GetOperations (Meta row) of
             Some metas \<Rightarrow>
               makeBalancesFromMetas_loop seq' ct rows (Suc tIndex)
                 (metasLoop seq' ct (of_nat (tIndex + 1)) metas 0 b)
           | None \<Rightarrow> b))"

definition makeBalancesFromMetas :: "BulkMaker \<Rightarrow> BulkMaker" where
  "makeBalancesFromMetas m =
     m\<lparr>buffer := makeBalancesFromMetas_loop (seq m) (closeTime m) (transactionRows m) 0
                    (buffer m)\<rparr>"

fun makeBalancesFromFeeHistory_loop ::
  "int \<Rightarrow> Time \<Rightarrow> TxFeeHistoryRow list \<Rightarrow> nat \<Rightarrow> Buffer \<Rightarrow> Buffer" where
  "makeBalancesFromFeeHistory_loop seq' ct [] tIndex b = b"
| "makeBalancesFromFeeHistory_loop seq' ct (fee # fs) tIndex b =
     (let pagingToken = \<lparr>LedgerSeq = seq', TransactionOrder = of_nat (tIndex + 1),
                           OperationOrder = fakeOperationIndex,
                           AuxOrder1 = balanceFromFeeAuxOrder\<rparr>;
          bl = Extract (NewBalanceExtractor (Changes fee) ct BalanceSourceFee pagingToken)
      in makeBalancesFromFeeHistory_loop seq' ct fs (Suc tIndex) (serializeBalances bl b))"

definition makeBalancesFromFeeHistory :: "BulkMaker \<Rightarrow> BulkMaker" where
  "makeBalancesFromFeeHistory m =
     m\<lparr>buffer := makeBalancesFromFeeHistory_loop (seq m) (closeTime m) (fees m) 0 (buffer m)\<rparr>"

definition Make :: "BulkMaker \<Rightarrow> panic + BulkMaker" where
  "Make m =
     bindP (makeOperationsWithResults (makeTransactions (makeLedger m)))
       (\<lambda>m3. Inr (makeBalancesFromFeeHistory (makeBalancesFromMetas m3)))"

section \<open>The export command\<close>

text \<open>
  Go's \<^verbatim>\<open>int\<close> is modelled by \<open>int\<close>: the command adds the start and the count once and
  counts retries upwards by one, and the model is the program as long as these sums stay
  within 64 bits. The collaborators are parameters:
  \<^verbatim>\<open>stellar.StreamLedgers\<close> is the list of records the channel delivers before it is
  closed, \<^verbatim>\<open>es.SerializeLedgerFromHistory\<close> a function on the buffer, \<^verbatim>\<open>cmd.ES.BulkInsert\<close> the
  sink's answer to its \<open>k\<close>-th call, and \<^verbatim>\<open>rand.Intn(10)\<close> the \<open>k\<close>-th draw reduced modulo 10.
  What the process does to the outside is recorded in the \<open>world\<close>: the calls of
  \<^verbatim>\<open>StreamLedgers\<close>, the sequence numbers printed by \<^verbatim>\<open>log.Println(seq)\<close> (one per ledger handed to
  the serializer), the buffers handed to \<^verbatim>\<open>BulkInsert\<close> and the seconds slept.
  \<^verbatim>\<open>log.Fatal\<close> ends the process: the outcome \<open>Fatal\<close> with the message.
\<close>

record ExportCommandConfig =
  Start :: int
  Count :: int
  RetryCount :: int
  DryRun :: bool
  BatchSize :: int

record ExportCommand =
  Config :: ExportCommandConfig
  firstLedger :: int
  lastLedger :: int

record xdr_LedgerCloseMeta =
  V0_LedgerHeader_Header_LedgerSeq :: "32 word"

record world =
  streamed :: "(int \<times> int) list"
  printed :: "int list"
  inserted :: "Buffer list"
  slept :: "nat list"

datatype outcome = Returned | Fatal string

fun streamLoop ::
  "(xdr_LedgerCloseMeta \<Rightarrow> Buffer \<Rightarrow> Buffer) \<Rightarrow> ExportCommand \<Rightarrow> xdr_LedgerCloseMeta list
     \<Rightarrow> Buffer \<times> world \<Rightarrow> Buffer \<times> world" where
  "streamLoop ser cmd [] (b, w) = (b, w)"
| "streamLoop ser cmd (meta # metas) (b, w) =
     (let seq' = uint (V0_LedgerHeader_Header_LedgerSeq meta)
      in if seq' < firstLedger cmd \<or> seq' > lastLedger cmd
         then streamLoop ser cmd metas (b, w)
         else streamLoop ser cmd metas (ser meta b, w\<lparr>printed := printed w @ [seq']\<rparr>))"

definition Execute ::
  "(xdr_LedgerCloseMeta \<Rightarrow> Buffer \<Rightarrow> Buffer) \<Rightarrow> (int \<Rightarrow> int \<Rightarrow> xdr_LedgerCloseMeta list)
     \<Rightarrow> (nat \<Rightarrow> Buffer \<Rightarrow> bool) \<Rightarrow> ExportCommand \<Rightarrow> world
     \<Rightarrow> outcome \<times> ExportCommand \<times> world" where
  "Execute SerializeLedgerFromHistory StreamLedgers BulkInsert cmd0 w0 =
     (let total = Count (Config cmd0);
          cmd = cmd0\<lparr>firstLedger := Start (Config cmd0),
                     lastLedger := Start (Config cmd0) + Count (Config cmd0)\<rparr>
      in if total = 0 then (Fatal ''Nothing to export within given range!'', cmd, w0)
         else
           (let w1 = w0\<lparr>streamed := streamed w0 @ [(firstLedger cmd, lastLedger cmd)]\<rparr>;
                (b, w2) = streamLoop SerializeLedgerFromHistory cmd
                            (StreamLedgers (firstLedger cmd) (lastLedger cmd)) ([], w1);
                indexed = BulkInsert (length (inserted w2)) b;
                w3 = w2\<lparr>inserted := inserted w2 @ [b]\<rparr>
            in if \<not> indexed then (Fatal ''Cannot bulk insert'', cmd, w3)
               else (Returned, cmd, w3)))"

function index ::
  "(nat \<Rightarrow> Buffer \<Rightarrow> bool) \<Rightarrow> (nat \<Rightarrow> nat) \<Rightarrow> ExportCommand \<Rightarrow> Buffer \<Rightarrow> int \<Rightarrow> world
     \<Rightarrow> outcome \<times> world" where
  "index BulkInsert rnd cmd b retry w =
     (let indexed = BulkInsert (length (inserted w)) b;
          w1 = w\<lparr>inserted := inserted w @ [b]\<rparr>
      in if \<not> indexed
         then (if retry > RetryCount (Config cmd)
               then (Fatal ''Retries for bulk failed, aborting'', w1)
               else (let delay = rnd (length (slept w1)) mod 10 + 5;
                         w2 = w1\<lparr>slept := slept w1 @ [delay]\<rparr>
                     in index BulkInsert rnd cmd b (retry + 1) w2))
         else (Returned, w1))"
  by pat_completeness auto
termination
  by (relation "measure (\<lambda>(BulkInsert, rnd, cmd, b, retry, w).
                            nat (RetryCount (Config cmd) + 1 - retry))") auto

declare index.simps [simp del]

text \<open>
  The delays of \<open>n\<close> consecutive sleeps of \<^verbatim>\<open>index\<close>, the first of which uses draw number
  \<open>k\<close>: \<^verbatim>\<open>rand.Intn(10) + 5\<close> seconds each.
\<close>

definition delays :: "(nat \<Rightarrow> nat) \<Rightarrow> nat \<Rightarrow> nat \<Rightarrow> nat list" where
  "delays rnd k n = map (\<lambda>i. rnd (k + i) mod 10 + 5) [0..<n]"

section \<open>Notions used to state the properties\<close>

text \<open>
  The second statement of the operation loop, on its own: the merge of the result at
  index \<open>i\<close> into the document, when the results pointer is not nil.
\<close>

definition mergeResult ::
  "xdr_OperationResult list option \<Rightarrow> nat \<Rightarrow> Operation \<Rightarrow> panic + Operation" where
  "mergeResult results i op =
     (case results of
        None \<Rightarrow> Inr op
      | Some rs \<Rightarrow> if i < length rs then Inr (AppendResult op (rs ! i)) else Inl IndexOutOfRange)"

text \<open>
  Modelled from the spec: the target collection of a document (\<^verbatim>\<open>IndexName\<close>; the
  constants are not among the sources), one collection per document type.
\<close>

fun IndexName :: "Document \<Rightarrow> string" where
  "IndexName (LedgerHeaderDoc _) = ''ledgers''"
| "IndexName (TransactionDoc _) = ''transactions''"
| "IndexName (OperationDoc _) = ''operations''"
| "IndexName (BalanceDoc _) = ''balances''"

text \<open>
  The emission order in the words of the specification, to compare the builders with:
  (1) the LedgerHeader document; (2) for each transaction in ledger order, the
  Transaction document, then its Operation documents in order, each merged with its
  result; (3) for each transaction in ledger order, the Balance documents of its
  entry-change metadata; (4) for each fee-history row in ledger order, the Balance
  documents of the fee charge. The tokens are the ones claim C1 describes.
\<close>

fun spec_transactions_operations :: "LedgerHeader \<Rightarrow> TxHistoryRow list \<Rightarrow> panic + Buffer" where
  "spec_transactions_operations h [] = Inr []"
| "spec_transactions_operations h (row # rows) =
     (let tx = NewTransaction row (hCloseTime h)
      in bindP (operationsLoop tx (Envelope_Tx_Operations row) (Result_Results row) 0
                  [TransactionDoc tx])
           (\<lambda>ds. bindP (spec_transactions_operations h rows) (\<lambda>rest. Inr (ds @ rest))))"

fun spec_meta_balances :: "LedgerHeader \<Rightarrow> TxHistoryRow list \<Rightarrow> nat \<Rightarrow> Buffer" where
  "spec_meta_balances h [] t = []"
| "spec_meta_balances h (row # rows) t =
     metasLoop (hSeq h) (hCloseTime h) (of_nat (t + 1))
       (case GetV1 (Meta row) of
          Some v1 \<Rightarrow> V1Operations v1
        | None \<Rightarrow> (case GetOperations (Meta row) of Some ms \<Rightarrow> ms | None \<Rightarrow> []))
       0 []
     @ spec_meta_balances h rows (Suc t)"

definition spec_emission_order ::
  "LedgerHeaderRow \<Rightarrow> TxHistoryRow list \<Rightarrow> TxFeeHistoryRow list \<Rightarrow> panic + Buffer" where
  "spec_emission_order l t f =
     (let h = NewLedgerHeader l
      in bindP (spec_transactions_operations h t)
           (\<lambda>td. Inr ([LedgerHeaderDoc h] @ td @ spec_meta_balances h t 0
                        @ makeBalancesFromFeeHistory_loop (hSeq h) (hCloseTime h) f 0 [])))"

section \<open>Properties of the failure monad\<close>

lemma bindP_Inr [simp]: "bindP (Inr v) f = f v"
  by (simp add: bindP_def)

lemma bindP_Inl [simp]: "bindP (Inl e) f = Inl e"
  by (simp add: bindP_def)

lemma bindP_eq_Inr: "bindP r f = Inr v \<longleftrightarrow> (\<exists>x. r = Inr x \<and> f x = Inr v)"
  by (cases r) simp_all

section \<open>The operation decoder: what each arm computes\<close>

lemma newManageOffer_eq:
  "newManageOffer m op =
     (if PriceD (moPrice m) = 0 then Inl DivisionByZero
      else Inr (op\<lparr>SourceAmount := moAmount m, SourceAsset := Some (asset (moBuying m)),
                    OfferID := moOfferId m,
                    OfferPrice := Fract (PriceN (moPrice m)) (PriceD (moPrice m)),
                    DestinationAsset := Some (asset (moSelling m))\<rparr>))"
  by (simp add: newManageOffer_def NewRat_def Let_def)

lemma newCreatePassiveOffer_eq:
  "newCreatePassiveOffer c op =
     (if PriceD (cpPrice c) = 0 then Inl DivisionByZero
      else Inr (op\<lparr>SourceAmount := cpAmount c, SourceAsset := Some (asset (cpBuying c)),
                    OfferPrice := Fract (PriceN (cpPrice c)) (PriceD (cpPrice c)),
                    OfferPriceND := \<lparr>N = PriceN (cpPrice c), D = PriceD (cpPrice c)\<rparr>,
                    DestinationAsset := Some (asset (cpSelling c))\<rparr>))"
  by (simp add: newCreatePassiveOffer_def NewRat_def Let_def)

text \<open>
  Writing a threshold through the nil pointer of the fresh \<^verbatim>\<open>Thresholds{}\<close> panics, so the
  block survives only when neither the low threshold nor the master weight is present,
  and then copies nothing.
\<close>

lemma setThresholds_Inl:
  "soLowThreshold s \<noteq> None \<or> soMasterWeight s \<noteq> None \<Longrightarrow>
   setThresholds s emptyThresholds = Inl NilPointerDereference"
  by (cases "soLowThreshold s"; cases "soMasterWeight s")
     (simp_all add: setThresholds_def emptyThresholds_def deref_def store_def)

lemma setThresholds_Inr:
  "soLowThreshold s = None \<Longrightarrow> soMasterWeight s = None \<Longrightarrow>
   setThresholds s emptyThresholds = Inr emptyThresholds"
  by (simp add: setThresholds_def)

lemma newSetOptions_fresh:
  "SetFlags op = None \<Longrightarrow> ClearFlags op = None \<Longrightarrow>
   newSetOptions s op =
     (case soHomeDomain s of
        None \<Rightarrow> Inl NilPointerDereference
      | Some d \<Rightarrow>
          if soLowThreshold s \<noteq> None \<or> soMasterWeight s \<noteq> None
          then Inl NilPointerDereference
          else if soMedThreshold s \<noteq> None \<or> soHighThreshold s \<noteq> None
          then Inr (op\<lparr>InflationDest := AddressPtr (soInflationDest s), HomeDomain := d,
                        Thresholds := Some emptyThresholds\<rparr>)
          else Inr (op\<lparr>InflationDest := AddressPtr (soInflationDest s), HomeDomain := d\<rparr>))"
proof (cases "soHomeDomain s")
  case None
  then show ?thesis by (simp add: newSetOptions_def deref_def)
next
  case (Some d)
  assume f: "SetFlags op = None" "ClearFlags op = None"
  show ?thesis
  proof (cases "soLowThreshold s \<noteq> None \<or> soMasterWeight s \<noteq> None")
    case True
    then show ?thesis
      using Some setThresholds_Inl [of s]
      by (simp add: newSetOptions_def deref_def Let_def del: not_None_eq)
  next
    case False
    then have n: "soLowThreshold s = None" "soMasterWeight s = None" by simp_all
    show ?thesis
      using Some f n setThresholds_Inr [OF n]
      by (simp add: newSetOptions_def deref_def Let_def del: not_None_eq)
  qed
qed

lemma NewOperation_defaults:
  "case NewOperation t o' n of Inl e \<Rightarrow> True | Inr op \<Rightarrow> Succesful op \<and> ResultCode op = 0"
proof (cases "Body o'")
  case (SetOptions s)
  have "SetFlags (envelope t o' n) = None" "ClearFlags (envelope t o' n) = None"
    by (simp_all add: envelope_def)
  from newSetOptions_fresh [OF this, of s] SetOptions show ?thesis
    by (simp add: NewOperation_def envelope_def split: option.split)
qed (simp_all add: NewOperation_def envelope_def newCreateAccount_def newPayment_def
       newPathPayment_def newManageOffer_eq newCreatePassiveOffer_eq)

lemma NewOperation_Inr_defaults:
  "NewOperation t o' n = Inr op \<Longrightarrow> Succesful op \<and> ResultCode op = 0"
  using NewOperation_defaults [of t o' n] by simp

text \<open>
  Both offer arms put the buying asset into the source slot and the selling asset into
  the destination slot and compute the quotient; \<^verbatim>\<open>big.NewRat\<close> panics on a zero
  denominator. Only the passive-offer arm stores the pair.
\<close>

lemma offers_asset_slots:
  "PriceD (moPrice m) \<noteq> 0 \<Longrightarrow>
     map_sum id (\<lambda>op. (SourceAsset op, DestinationAsset op, OfferPrice op))
       (newManageOffer m op) =
     Inr (Some (asset (moBuying m)), Some (asset (moSelling m)),
          Fract (PriceN (moPrice m)) (PriceD (moPrice m)))"
  "PriceD (cpPrice c) \<noteq> 0 \<Longrightarrow>
     map_sum id (\<lambda>op. (SourceAsset op, DestinationAsset op, OfferPrice op, OfferPriceND op))
       (newCreatePassiveOffer c op) =
     Inr (Some (asset (cpBuying c)), Some (asset (cpSelling c)),
          Fract (PriceN (cpPrice c)) (PriceD (cpPrice c)),
          \<lparr>N = PriceN (cpPrice c), D = PriceD (cpPrice c)\<rparr>)"
  "PriceD (moPrice m) = 0 \<Longrightarrow> newManageOffer m op = Inl DivisionByZero"
  "PriceD (cpPrice c) = 0 \<Longrightarrow> newCreatePassiveOffer c op = Inl DivisionByZero"
  by (simp_all add: newManageOffer_eq newCreatePassiveOffer_eq)

lemma newManageOffer_never_sets_pair:
  "map_sum id OfferPriceND (newManageOffer m op) =
     (if PriceD (moPrice m) = 0 then Inl DivisionByZero else Inr (OfferPriceND op))"
  by (simp add: newManageOffer_eq)

text \<open>
  Claim C6 (set-options: a threshold is copied only when present, and only the present
  ones appear; flag bitmasks are decoded into named flags exactly when present). The
  code does not do this. Evaluated at three set-options operations: one that sets only
  the master weight panics at \<^verbatim>\<open>*o.HomeDomain\<close>; with a home domain as well it panics at
  the write through the nil \<^verbatim>\<open>op.Thresholds.Master\<close>; and one that sets the flag bitmask 1
  (with a home domain) returns a document whose \<open>SetFlags\<close> is absent, because the guard
  tests the document's own field.
\<close>

theorem newSetOptions_master_weight_only:
  "NewOperation
     \<lparr>txID = ''ab'', txIndex = 1, txSeq = 7, txOrder = ''7:1'', txCloseTime = 1000,
      txSourceAccountID = ''GA'', txMemo = None\<rparr>
     \<lparr>SourceAccount = None,
      Body = SetOptions
        \<lparr>soInflationDest = None, soClearFlags = None, soSetFlags = None,
         soMasterWeight = Some 10, soLowThreshold = None, soMedThreshold = None,
         soHighThreshold = None, soHomeDomain = None\<rparr>\<rparr> 0
     = Inl NilPointerDereference
   \<and> NewOperation
     \<lparr>txID = ''ab'', txIndex = 1, txSeq = 7, txOrder = ''7:1'', txCloseTime = 1000,
      txSourceAccountID = ''GA'', txMemo = None\<rparr>
     \<lparr>SourceAccount = None,
      Body = SetOptions
        \<lparr>soInflationDest = None, soClearFlags = None, soSetFlags = None,
         soMasterWeight = Some 10, soLowThreshold = None, soMedThreshold = None,
         soHighThreshold = None, soHomeDomain = Some ''example.org''\<rparr>\<rparr> 0
     = Inl NilPointerDereference
   \<and> map_sum id SetFlags
       (NewOperation
          \<lparr>txID = ''ab'', txIndex = 1, txSeq = 7, txOrder = ''7:1'', txCloseTime = 1000,
           txSourceAccountID = ''GA'', txMemo = None\<rparr>
          \<lparr>SourceAccount = None,
           Body = SetOptions
             \<lparr>soInflationDest = None, soClearFlags = None, soSetFlags = Some 1,
              soMasterWeight = None, soLowThreshold = None, soMedThreshold = None,
              soHighThreshold = None, soHomeDomain = Some ''example.org''\<rparr>\<rparr> 0)
     = Inr None"
  by (simp add: NewOperation_def envelope_def newSetOptions_def setThresholds_def
        emptyThresholds_def deref_def store_def)

text \<open>
  Claim C7 (manage-offer and create-passive-offer carry the price both as the pair and
  as the quotient). The manage-offer arm never stores the pair: at the price 3/2 the
  document has the quotient 3/2 and the pair (0, 0), where the passive-offer arm, on the
  same price, has the pair (3, 2).
\<close>

theorem newManageOffer_price_pair_missing:
  "map_sum id (\<lambda>op. (OfferPrice op, OfferPriceND op))
     (NewOperation
        \<lparr>txID = ''ab'', txIndex = 1, txSeq = 7, txOrder = ''7:1'', txCloseTime = 1000,
         txSourceAccountID = ''GA'', txMemo = None\<rparr>
        \<lparr>SourceAccount = None,
         Body = ManageOffer
           \<lparr>moSelling = AssetTypeNative,
            moBuying = AssetTypeCreditAlphanum4 ''USD'' ''GI'',
            moAmount = 5, moPrice = \<lparr>PriceN = 3, PriceD = 2\<rparr>, moOfferId = 9\<rparr>\<rparr> 0)
     = Inr (Fract 3 2, \<lparr>N = 0, D = 0\<rparr>)
   \<and> map_sum id (\<lambda>op. (OfferPrice op, OfferPriceND op))
     (NewOperation
        \<lparr>txID = ''ab'', txIndex = 1, txSeq = 7, txOrder = ''7:1'', txCloseTime = 1000,
         txSourceAccountID = ''GA'', txMemo = None\<rparr>
        \<lparr>SourceAccount = None,
         Body = CreatePassiveOffer
           \<lparr>cpSelling = AssetTypeNative,
            cpBuying = AssetTypeCreditAlphanum4 ''USD'' ''GI'',
            cpAmount = 5, cpPrice = \<lparr>PriceN = 3, PriceD = 2\<rparr>\<rparr>\<rparr> 0)
     = Inr (Fract 3 2, \<lparr>N = 3, D = 2\<rparr>)"
  by (simp add: NewOperation_def envelope_def newManageOffer_eq newCreatePassiveOffer_eq)

text \<open>
  Claim C8: decoding an operation whose kind is outside the six decoded kinds returns,
  without a panic, the document that carries only the shared envelope (transaction and
  ledger linkage, order string, kind tag, source account, inherited memo and close time);
  every kind-specific field is at its zero value.
\<close>

theorem NewOperation_unknown_kind:
  "\<not> knownKind (Body o') \<Longrightarrow>
   NewOperation t o' n =
     Inr \<lparr>TxID = txID t, TxIndex = txIndex t, Index = n, Seq = txSeq t,
          Order = txOrder t @ '':'' @ decimal (unat n),
          CloseTime = txCloseTime t, Succesful = True, ResultCode = 0,
          TxSourceAccountID = txSourceAccountID t,
          Type = OperationTypeString (Body o'),
          SourceAccountID =
            (case SourceAccount o' of None \<Rightarrow> txSourceAccountID t | Some a \<Rightarrow> Address a),
          SourceAsset = None, SourceAmount = 0, DestinationAccountID = [],
          DestinationAsset = None, DestinationAmount = 0, OfferPrice = 0,
          OfferPriceND = \<lparr>N = 0, D = 0\<rparr>, OfferID = 0, TrustLimit = 0, Authorize = False,
          BumpTo = 0, Path = None, Thresholds = None, HomeDomain = [], InflationDest = [],
          SetFlags = None, ClearFlags = None, Memo = txMemo t\<rparr>"
  by (cases "Body o'") (simp_all add: NewOperation_def envelope_def)

theorem NewOperation_unknown_kind_witness:
  "\<not> knownKind (OtherOperation 8) \<and>
   NewOperation
     \<lparr>txID = ''ab'', txIndex = 1, txSeq = 7, txOrder = ''7:1'', txCloseTime = 1000,
      txSourceAccountID = ''GA'', txMemo = Some ''hello''\<rparr>
     \<lparr>SourceAccount = None, Body = OtherOperation 8\<rparr> 12 =
     Inr \<lparr>TxID = ''ab'', TxIndex = 1, Index = 12, Seq = 7, Order = ''7:1:12'',
          CloseTime = 1000, Succesful = True, ResultCode = 0,
          TxSourceAccountID = ''GA'', Type = ''OperationTypeAccountMerge'',
          SourceAccountID = ''GA'', SourceAsset = None, SourceAmount = 0,
          DestinationAccountID = [], DestinationAsset = None, DestinationAmount = 0,
          OfferPrice = 0, OfferPriceND = \<lparr>N = 0, D = 0\<rparr>, OfferID = 0, TrustLimit = 0,
          Authorize = False, BumpTo = 0, Path = None, Thresholds = None, HomeDomain = [],
          InflationDest = [], SetFlags = None, ClearFlags = None, Memo = Some ''hello''\<rparr>"
  using NewOperation_unknown_kind
          [of "\<lparr>SourceAccount = None, Body = OtherOperation 8\<rparr>"
              "\<lparr>txID = ''ab'', txIndex = 1, txSeq = 7, txOrder = ''7:1'', txCloseTime = 1000,
                txSourceAccountID = ''GA'', txMemo = Some ''hello''\<rparr>" 12]
  by (simp add: digit_def decimal.simps)

section \<open>The export command: range check and submission\<close>

text \<open>
  Claim C9: with a count of zero, whatever the start, \<^verbatim>\<open>Execute\<close> ends fatally before any
  work: the world is the one it started in (no call of \<^verbatim>\<open>StreamLedgers\<close>, no ledger handed
  to the serializer, no call of \<^verbatim>\<open>BulkInsert\<close>, no sleep).
\<close>

theorem Execute_zero_count:
  "Execute ser stream ins (cmd\<lparr>Config := (Config cmd)\<lparr>Count := 0\<rparr>\<rparr>) w =
     (Fatal ''Nothing to export within given range!'',
      cmd\<lparr>Config := (Config cmd)\<lparr>Count := 0\<rparr>, firstLedger := Start (Config cmd),
          lastLedger := Start (Config cmd)\<rparr>,
      w)"
  by (simp add: Execute_def)


text \<open>
  The loop over the streamed records hands to the serializer exactly the records whose
  sequence number \<open>s\<close> satisfies \<open>firstLedger \<le> s \<le> lastLedger\<close>, in stream order, and
  touches nothing else of the world.
\<close>

lemma streamLoop_effects:
  "streamLoop ser cmd metas (b, w) = (b', w') \<Longrightarrow>
   printed w' = printed w @
       filter (\<lambda>s. firstLedger cmd \<le> s \<and> s \<le> lastLedger cmd)
         (map (\<lambda>m. uint (V0_LedgerHeader_Header_LedgerSeq m)) metas)
   \<and> streamed w' = streamed w \<and> inserted w' = inserted w \<and> slept w' = slept w"
proof (induction metas arbitrary: b w)
  case Nil
  then show ?case by simp
next
  case (Cons meta metas)
  show ?case
  proof (cases "uint (V0_LedgerHeader_Header_LedgerSeq meta) < firstLedger cmd
                \<or> uint (V0_LedgerHeader_Header_LedgerSeq meta) > lastLedger cmd")
    case True
    with Cons.prems have "streamLoop ser cmd metas (b, w) = (b', w')"
      by (simp add: Let_def)
    from Cons.IH [OF this] True show ?thesis by auto
  next
    case False
    with Cons.prems
    have "streamLoop ser cmd metas
            (ser meta b, w\<lparr>printed := printed w @ [uint (V0_LedgerHeader_Header_LedgerSeq meta)]\<rparr>)
          = (b', w')"
      by (simp add: Let_def)
    from Cons.IH [OF this] False show ?thesis by auto
  qed
qed

lemma Execute_printed:
  "Count (Config cmd) \<noteq> 0 \<Longrightarrow>
   printed (snd (snd (Execute ser stream ins cmd w))) =
     printed w @
       filter (\<lambda>s. Start (Config cmd) \<le> s \<and> s \<le> Start (Config cmd) + Count (Config cmd))
         (map (\<lambda>m. uint (V0_LedgerHeader_Header_LedgerSeq m))
            (stream (Start (Config cmd)) (Start (Config cmd) + Count (Config cmd))))"
proof -
  assume c: "Count (Config cmd) \<noteq> 0"
  define cmd1 where "cmd1 = cmd\<lparr>firstLedger := Start (Config cmd),
                                lastLedger := Start (Config cmd) + Count (Config cmd)\<rparr>"
  define w1 where "w1 = w\<lparr>streamed := streamed w @ [(firstLedger cmd1, lastLedger cmd1)]\<rparr>"
  obtain b w2 where l: "streamLoop ser cmd1 (stream (firstLedger cmd1) (lastLedger cmd1)) ([], w1) = (b, w2)"
    by (cases "streamLoop ser cmd1 (stream (firstLedger cmd1) (lastLedger cmd1)) ([], w1)") 
  from streamLoop_effects [OF l] have p: "printed w2 = printed w1 @
       filter (\<lambda>s. firstLedger cmd1 \<le> s \<and> s \<le> lastLedger cmd1)
         (map (\<lambda>m. uint (V0_LedgerHeader_Header_LedgerSeq m)) (stream (firstLedger cmd1) (lastLedger cmd1)))"
    by simp
  have "printed (snd (snd (Execute ser stream ins cmd w))) = printed w2"
    using c l by (simp add: Execute_def Let_def cmd1_def [symmetric] w1_def [symmetric])
  with p show ?thesis by (simp add: cmd1_def w1_def)
qed

text \<open>
  Claim C3 (only ledgers with a sequence in the half-open range from \<open>s\<close> to \<open>s + c\<close> are
  built; every other record is discarded). The guard of the source is
  \<^verbatim>\<open>seq < cmd.firstLedger || seq > cmd.lastLedger\<close> with \<^verbatim>\<open>lastLedger = firstLedger + Count\<close>, so a
  record with the sequence \<open>s + c\<close> passes. Evaluated at start 100 and count 50, on a
  stream that delivers the sequences 99, 100, 149, 150, 151: the ledgers 100, 149 and
  150 are printed and serialized into the buffer that is submitted.
\<close>

theorem Execute_upper_bound_inclusive:
  "printed (snd (snd
     (Execute ser
        (\<lambda>first last. [\<lparr>V0_LedgerHeader_Header_LedgerSeq = 99\<rparr>,
                       \<lparr>V0_LedgerHeader_Header_LedgerSeq = 100\<rparr>,
                       \<lparr>V0_LedgerHeader_Header_LedgerSeq = 149\<rparr>,
                       \<lparr>V0_LedgerHeader_Header_LedgerSeq = 150\<rparr>,
                       \<lparr>V0_LedgerHeader_Header_LedgerSeq = 151\<rparr>])
        ins
        \<lparr>Config = \<lparr>Start = 100, Count = 50, RetryCount = 25, DryRun = False, BatchSize = 50\<rparr>,
         firstLedger = 0, lastLedger = 0\<rparr>
        \<lparr>streamed = [], printed = [], inserted = [], slept = []\<rparr>))) = [100, 149, 150]
   \<and> inserted (snd (snd
     (Execute ser
        (\<lambda>first last. [\<lparr>V0_LedgerHeader_Header_LedgerSeq = 99\<rparr>,
                       \<lparr>V0_LedgerHeader_Header_LedgerSeq = 100\<rparr>,
                       \<lparr>V0_LedgerHeader_Header_LedgerSeq = 149\<rparr>,
                       \<lparr>V0_LedgerHeader_Header_LedgerSeq = 150\<rparr>,
                       \<lparr>V0_LedgerHeader_Header_LedgerSeq = 151\<rparr>])
        ins
        \<lparr>Config = \<lparr>Start = 100, Count = 50, RetryCount = 25, DryRun = False, BatchSize = 50\<rparr>,
         firstLedger = 0, lastLedger = 0\<rparr>
        \<lparr>streamed = [], printed = [], inserted = [], slept = []\<rparr>))) =
     [ser \<lparr>V0_LedgerHeader_Header_LedgerSeq = 150\<rparr>
        (ser \<lparr>V0_LedgerHeader_Header_LedgerSeq = 149\<rparr>
           (ser \<lparr>V0_LedgerHeader_Header_LedgerSeq = 100\<rparr> []))]"
  by (simp add: Execute_def Let_def)

text \<open>
  The retry helper \<^verbatim>\<open>index\<close> when every submission of the buffer fails: started with the
  counter \<open>retry\<close>, it submits once for every counter value up to \<open>RetryCount + 1\<close>, sleeps
  between consecutive submissions and ends fatally.
\<close>

lemma delays_Suc: "delays rnd k (Suc n) = (rnd k mod 10 + 5) # delays rnd (Suc k) n"
proof -
  have "[0..<Suc n] = 0 # map Suc [0..<n]"
    by (simp only: upt_conv_Cons [OF zero_less_Suc] map_Suc_upt)
  then show ?thesis
    by (simp add: delays_def comp_def del: upt_Suc)
qed

lemma delays_bounds: "d \<in> set (delays rnd k n) \<Longrightarrow> 5 \<le> d \<and> d \<le> 14"
  by (auto simp: delays_def)

lemma index_all_fail:
  assumes fail: "\<forall>k. \<not> ins k b"
  shows "nat (RetryCount (Config cmd) + 1 - retry) = n \<Longrightarrow> retry \<le> RetryCount (Config cmd) + 1 \<Longrightarrow>
         index ins rnd cmd b retry w =
           (Fatal ''Retries for bulk failed, aborting'',
            w\<lparr>inserted := inserted w @ replicate (Suc n) b,
               slept := slept w @ delays rnd (length (slept w)) n\<rparr>)"
proof (induction n arbitrary: retry w)
  case 0
  then have "retry > RetryCount (Config cmd)" by simp
  then show ?case
    using fail by (simp add: index.simps [of ins rnd cmd b retry w] delays_def)
next
  case (Suc n)
  then have le: "\<not> retry > RetryCount (Config cmd)" by simp
  define w2 where "w2 = w\<lparr>inserted := inserted w @ [b],
                           slept := slept w @ [rnd (length (slept w)) mod 10 + 5]\<rparr>"
  have step: "index ins rnd cmd b retry w = index ins rnd cmd b (retry + 1) w2"
    using fail le by (simp add: index.simps [of ins rnd cmd b retry w] w2_def Let_def)
  have "nat (RetryCount (Config cmd) + 1 - (retry + 1)) = n"
       "retry + 1 \<le> RetryCount (Config cmd) + 1"
    using Suc.prems by simp_all
  from Suc.IH [OF this, of w2] step show ?case
    by (simp add: w2_def delays_Suc replicate_app_Cons_same)
qed




section \<open>The bulk builders: what each loop appends\<close>

text \<open>
  Every loop only appends to the buffer; its output on the empty buffer is what it
  appends.
\<close>

lemma serializeBalances_eq: "serializeBalances bl b = b @ map BalanceDoc bl"
  unfolding serializeBalances_def
  by (induction bl arbitrary: b) (simp_all add: SerializeForBulk_def)

lemma metasLoop_append:
  "metasLoop s ct to metas k b = b @ metasLoop s ct to metas k []"
proof (induction metas arbitrary: k b)
  case Nil
  show ?case by simp
next
  case (Cons e es)
  show ?case
    by (simp add: Let_def serializeBalances_eq Cons.IH [of "Suc k" "b @ _"]
          Cons.IH [of "Suc k" "map BalanceDoc _"])
qed

lemma metasLoop_balances: "list_all isBalanceDoc (metasLoop s ct to metas k [])"
proof (induction metas arbitrary: k)
  case Nil
  show ?case by simp
next
  case (Cons e es)
  have "list_all isBalanceDoc (map BalanceDoc bl)" for bl
    by (simp add: list_all_iff)
  with Cons show ?case
    by (simp add: Let_def serializeBalances_eq metasLoop_append [of _ _ _ _ _ "map BalanceDoc _"])
qed

lemma makeBalancesFromMetas_loop_append:
  "makeBalancesFromMetas_loop s ct rows k b = b @ makeBalancesFromMetas_loop s ct rows k []"
proof (induction rows arbitrary: k b)
  case Nil
  show ?case by simp
next
  case (Cons row rows)
  have step: "makeBalancesFromMetas_loop s ct rows (Suc k) (metasLoop s ct to ms 0 b) =
              b @ makeBalancesFromMetas_loop s ct rows (Suc k) (metasLoop s ct to ms 0 [])"
    for to ms
    by (subst Cons.IH, subst (2) Cons.IH, subst metasLoop_append) simp
  show ?case
    by (cases "GetV1 (Meta row)"; cases "GetOperations (Meta row)") (simp_all add: step)
qed

lemma makeBalancesFromMetas_loop_balances:
  "list_all isBalanceDoc (makeBalancesFromMetas_loop s ct rows k [])"
proof (induction rows arbitrary: k)
  case Nil
  show ?case by simp
next
  case (Cons row rows)
  have step: "list_all isBalanceDoc
                (makeBalancesFromMetas_loop s ct rows (Suc k) (metasLoop s ct to ms 0 []))"
    for to ms
    by (subst makeBalancesFromMetas_loop_append) (simp add: metasLoop_balances Cons.IH)
  show ?case
    by (cases "GetV1 (Meta row)"; cases "GetOperations (Meta row)") (simp_all add: step)
qed

lemma makeBalancesFromFeeHistory_loop_append:
  "makeBalancesFromFeeHistory_loop s ct fs k b = b @ makeBalancesFromFeeHistory_loop s ct fs k []"
proof (induction fs arbitrary: k b)
  case Nil
  show ?case by simp
next
  case (Cons fee fs)
  show ?case
    by (simp add: Let_def serializeBalances_eq Cons.IH [of "Suc k" "b @ _"]
          Cons.IH [of "Suc k" "map BalanceDoc _"])
qed

lemma makeBalancesFromFeeHistory_loop_balances:
  "list_all isBalanceDoc (makeBalancesFromFeeHistory_loop s ct fs k [])"
proof (induction fs arbitrary: k)
  case Nil
  show ?case by simp
next
  case (Cons fee fs)
  have "list_all isBalanceDoc (map BalanceDoc bl)" for bl
    by (simp add: list_all_iff)
  with Cons show ?case
    by (simp add: Let_def serializeBalances_eq
          makeBalancesFromFeeHistory_loop_append [of _ _ _ _ "map BalanceDoc _"])
qed

lemma MakeBulk_fees_append:
  "MakeBulk_fees h fs k b = b @ MakeBulk_fees h fs k []"
proof (induction fs arbitrary: k b)
  case Nil
  show ?case by simp
next
  case (Cons fee fs)
  show ?case
    by (simp add: Let_def serializeBalances_eq Cons.IH [of "Suc k" "b @ _"]
          Cons.IH [of "Suc k" "map BalanceDoc _"])
qed

lemma MakeBulk_fees_balances: "list_all isBalanceDoc (MakeBulk_fees h fs k [])"
proof (induction fs arbitrary: k)
  case Nil
  show ?case by simp
next
  case (Cons fee fs)
  have "list_all isBalanceDoc (map BalanceDoc bl)" for bl
    by (simp add: list_all_iff)
  with Cons show ?case
    by (simp add: Let_def serializeBalances_eq MakeBulk_fees_append [of _ _ _ "map BalanceDoc _"])
qed

lemma operationsLoop_append:
  "operationsLoop tx ops rs k b = bindP (operationsLoop tx ops rs k []) (\<lambda>ds. Inr (b @ ds))"
proof (induction ops arbitrary: k b)
  case Nil
  show ?case by simp
next
  case (Cons o' ops)
  show ?case
  proof (cases "NewOperation tx o' (of_nat k)")
    case (Inl e)
    then show ?thesis by simp
  next
    case (Inr op)
    show ?thesis
    proof (cases "case rs of None \<Rightarrow> Inr op
                  | Some r \<Rightarrow> if k < length r then Inr (AppendResult op (r ! k))
                              else Inl IndexOutOfRange")
      case (Inl e)
      with \<open>NewOperation tx o' (of_nat k) = Inr op\<close> show ?thesis by simp
    next
      case (Inr op')
      have a: "operationsLoop tx ops rs (Suc k) (b @ [OperationDoc op']) =
               bindP (operationsLoop tx ops rs (Suc k) []) (\<lambda>ds. Inr (b @ OperationDoc op' # ds))"
        by (subst Cons.IH) simp
      have c: "operationsLoop tx ops rs (Suc k) [OperationDoc op'] =
               bindP (operationsLoop tx ops rs (Suc k) []) (\<lambda>ds. Inr (OperationDoc op' # ds))"
        by (subst Cons.IH) simp
      from Inr \<open>NewOperation tx o' (of_nat k) = Inr op\<close> show ?thesis
        by (cases "operationsLoop tx ops rs (Suc k) []")
           (simp_all add: SerializeForBulk_def a c)
    qed
  qed
qed

lemma operationsLoop_Cons:
  "operationsLoop tx (o' # ops) results k [] =
     bindP (NewOperation tx o' (of_nat k))
       (\<lambda>op. bindP (mergeResult results k op)
                (\<lambda>op'. bindP (operationsLoop tx ops results (Suc k) [])
                          (\<lambda>ds. Inr (OperationDoc op' # ds))))"
proof -
  have "operationsLoop tx ops results (Suc k) [OperationDoc op'] =
        bindP (operationsLoop tx ops results (Suc k) []) (\<lambda>ds. Inr (OperationDoc op' # ds))"
    for op'
    by (subst operationsLoop_append) simp
  then show ?thesis
    by (simp add: mergeResult_def SerializeForBulk_def)
qed

lemma operationsLoop_Inr_D:
  "operationsLoop tx ops results k [] = Inr ds \<Longrightarrow>
   \<exists>os. ds = map OperationDoc os \<and> length os = length ops \<and>
     (\<forall>i<length ops. \<exists>op. NewOperation tx (ops ! i) (of_nat (k + i)) = Inr op
          \<and> mergeResult results (k + i) op = Inr (os ! i))"
proof (induction ops arbitrary: k ds)
  case Nil
  then show ?case by simp
next
  case (Cons o' ops)
  from Cons.prems obtain op op' ds' where
    n: "NewOperation tx o' (of_nat k) = Inr op" and
    m: "mergeResult results k op = Inr op'" and
    l: "operationsLoop tx ops results (Suc k) [] = Inr ds'" and
    d: "ds = OperationDoc op' # ds'"
    unfolding operationsLoop_Cons bindP_eq_Inr by auto
  from Cons.IH [OF l] obtain os' where
    ds': "ds' = map OperationDoc os'" and
    len: "length os' = length ops" and
    ih: "\<And>i. i < length ops \<Longrightarrow>
           \<exists>op. NewOperation tx (ops ! i) (of_nat (Suc k + i)) = Inr op
              \<and> mergeResult results (Suc k + i) op = Inr (os' ! i)"
    by blast
  have "\<exists>op. NewOperation tx ((o' # ops) ! i) (of_nat (k + i)) = Inr op
            \<and> mergeResult results (k + i) op = Inr ((op' # os') ! i)"
    if "i < length (o' # ops)" for i
  proof (cases i)
    case 0
    with n m show ?thesis by simp
  next
    case (Suc j)
    with that have "j < length ops" by simp
    from ih [OF this] Suc show ?thesis by simp
  qed
  then show ?case
    by (intro exI [of _ "op' # os'"]) (simp add: d ds' len)
qed

lemma operationsLoop_total:
  "(\<forall>i<length ops. \<exists>op op'. NewOperation tx (ops ! i) (of_nat (k + i)) = Inr op
        \<and> mergeResult results (k + i) op = Inr op') \<Longrightarrow>
   \<exists>ds. operationsLoop tx ops results k [] = Inr ds"
proof (induction ops arbitrary: k)
  case Nil
  show ?case by simp
next
  case (Cons o' ops)
  from Cons.prems [rule_format, of 0] obtain op op' where
    n: "NewOperation tx o' (of_nat k) = Inr op" and m: "mergeResult results k op = Inr op'"
    by auto
  have "\<forall>i<length ops. \<exists>op op'. NewOperation tx (ops ! i) (of_nat (Suc k + i)) = Inr op
          \<and> mergeResult results (Suc k + i) op = Inr op'"
  proof (intro allI impI)
    fix i assume "i < length ops"
    then have "Suc i < length (o' # ops)" by simp
    from Cons.prems [rule_format, OF this] show
      "\<exists>op op'. NewOperation tx (ops ! i) (of_nat (Suc k + i)) = Inr op
          \<and> mergeResult results (Suc k + i) op = Inr op'"
      by simp
  qed
  from Cons.IH [OF this] obtain ds where "operationsLoop tx ops results (Suc k) [] = Inr ds" ..
  with n m show ?case by (simp add: operationsLoop_Cons del: operationsLoop.simps)
qed

lemma operationsLoop_short_results:
  "(\<forall>i<length ops. \<exists>op. NewOperation tx (ops ! i) (of_nat (k + i)) = Inr op) \<Longrightarrow>
   length rs < k + length ops \<Longrightarrow> ops \<noteq> [] \<Longrightarrow>
   operationsLoop tx ops (Some rs) k [] = Inl IndexOutOfRange"
proof (induction ops arbitrary: k)
  case Nil
  then show ?case by simp
next
  case (Cons o' ops)
  from Cons.prems(1) [rule_format, of 0] obtain op where
    n: "NewOperation tx o' (of_nat k) = Inr op"
    by auto
  show ?case
  proof (cases "k < length rs")
    case False
    with n show ?thesis
      by (simp add: operationsLoop_Cons mergeResult_def del: operationsLoop.simps)
  next
    case True
    with Cons.prems(2) have ne: "ops \<noteq> []" and sh: "length rs < Suc k + length ops"
      by auto
    have "\<forall>i<length ops. \<exists>op. NewOperation tx (ops ! i) (of_nat (Suc k + i)) = Inr op"
    proof (intro allI impI)
      fix i assume "i < length ops"
      then have "Suc i < length (o' # ops)" by simp
      from Cons.prems(1) [rule_format, OF this]
      show "\<exists>op. NewOperation tx (ops ! i) (of_nat (Suc k + i)) = Inr op" by simp
    qed
    from Cons.IH [OF this sh ne] n True show ?thesis
      by (simp add: operationsLoop_Cons mergeResult_def del: operationsLoop.simps)
  qed
qed

lemma operationsLoop_kinds:
  "operationsLoop tx ops results k [] = Inr ds \<Longrightarrow> list_all isOperationDoc ds"
proof -
  assume "operationsLoop tx ops results k [] = Inr ds"
  from operationsLoop_Inr_D [OF this] obtain os where "ds = map OperationDoc os"
    by blast
  then show ?thesis by (simp add: list_all_iff)
qed

lemma fold_TransactionDoc:
  "fold (\<lambda>transaction. SerializeForBulk (TransactionDoc transaction)) ts b =
     b @ map TransactionDoc ts"
  by (induction ts arbitrary: b) (simp_all add: SerializeForBulk_def)

lemma makeOperationsWithResults_loop_append:
  "makeOperationsWithResults_loop rows ts k b =
     bindP (makeOperationsWithResults_loop rows ts k []) (\<lambda>ds. Inr (b @ ds))"
proof (induction ts arbitrary: k b)
  case Nil
  show ?case by simp
next
  case (Cons t ts)
  show ?case
  proof (cases "k < length rows")
    case False
    then show ?thesis by simp
  next
    case True
    define ops where "ops = Envelope_Tx_Operations (rows ! k)"
    define res where "res = Result_Results (rows ! k)"
    show ?thesis
    proof (cases "operationsLoop t ops res 0 []")
      case (Inl e)
      with True show ?thesis
        by (simp add: Let_def ops_def [symmetric] res_def [symmetric]
              operationsLoop_append [of t ops res 0 b])
    next
      case (Inr ds)
      have a: "makeOperationsWithResults_loop rows ts (Suc k) (b @ ds) =
               bindP (makeOperationsWithResults_loop rows ts (Suc k) [])
                 (\<lambda>r. Inr (b @ ds @ r))"
        by (subst Cons.IH) simp
      have c: "makeOperationsWithResults_loop rows ts (Suc k) ds =
               bindP (makeOperationsWithResults_loop rows ts (Suc k) []) (\<lambda>r. Inr (ds @ r))"
        by (subst Cons.IH) simp
      from True Inr show ?thesis
        by (cases "makeOperationsWithResults_loop rows ts (Suc k) []")
           (simp_all add: Let_def ops_def [symmetric] res_def [symmetric]
              operationsLoop_append [of t ops res 0 b] a c)
    qed
  qed
qed

lemma makeOperationsWithResults_loop_Cons:
  "makeOperationsWithResults_loop rows (t # ts) k [] =
     (if k < length rows
      then bindP (operationsLoop t (Envelope_Tx_Operations (rows ! k))
                    (Result_Results (rows ! k)) 0 [])
             (\<lambda>ods. bindP (makeOperationsWithResults_loop rows ts (Suc k) [])
                       (\<lambda>rest. Inr (ods @ rest)))
      else Inl IndexOutOfRange)"
proof (cases "k < length rows")
  case False
  then show ?thesis by simp
next
  case True
  define X where
    "X = operationsLoop t (Envelope_Tx_Operations (rows ! k)) (Result_Results (rows ! k)) 0 []"
  have "bindP X (makeOperationsWithResults_loop rows ts (Suc k)) =
        bindP X (\<lambda>ods. bindP (makeOperationsWithResults_loop rows ts (Suc k) [])
                          (\<lambda>rest. Inr (ods @ rest)))"
  proof (cases X)
    case (Inl e)
    then show ?thesis by simp
  next
    case (Inr ods)
    show ?thesis
      unfolding Inr bindP_Inr by (rule makeOperationsWithResults_loop_append)
  qed
  with True show ?thesis by (simp add: Let_def X_def)
qed

lemma makeOperationsWithResults_loop_kinds:
  "makeOperationsWithResults_loop rows ts k [] = Inr ds \<Longrightarrow> list_all isOperationDoc ds"
proof (induction ts arbitrary: k ds)
  case Nil
  then show ?case by simp
next
  case (Cons t ts)
  from Cons.prems obtain ods rest where
    o: "operationsLoop t (Envelope_Tx_Operations (rows ! k)) (Result_Results (rows ! k)) 0 []
          = Inr ods" and
    r: "makeOperationsWithResults_loop rows ts (Suc k) [] = Inr rest" and
    d: "ds = ods @ rest"
    unfolding makeOperationsWithResults_loop_Cons
    by (auto simp: bindP_eq_Inr split: if_splits)
  from operationsLoop_kinds [OF o] Cons.IH [OF r] d show ?case by simp
qed

lemma MakeBulk_transactions_append:
  "MakeBulk_transactions h rows b =
     bindP (MakeBulk_transactions h rows []) (\<lambda>ds. Inr (b @ ds))"
proof (induction rows arbitrary: b)
  case Nil
  show ?case by simp
next
  case (Cons row rows)
  define tx where "tx = NewTransaction row (hCloseTime h)"
  define metas where
    "metas = (case GetV1 (Meta row) of Some v1 \<Rightarrow> V1Operations v1
              | None \<Rightarrow> (case GetOperations (Meta row) of Some ms \<Rightarrow> ms | None \<Rightarrow> []))"
  define ml where "ml = metasLoop (hSeq h) (hCloseTime h) (txIndex tx) metas 0 []"
  have m: "metasLoop (hSeq h) (hCloseTime h) (txIndex tx) metas 0 x = x @ ml" for x
    unfolding ml_def by (rule metasLoop_append)
  have o: "operationsLoop tx (Envelope_Tx_Operations row) (Result_Results row) 0 x =
           bindP (operationsLoop tx (Envelope_Tx_Operations row) (Result_Results row) 0 [])
             (\<lambda>ds. Inr (x @ ds))" for x
    by (rule operationsLoop_append)
  have r: "MakeBulk_transactions h rows (x @ y) =
           bindP (MakeBulk_transactions h rows []) (\<lambda>ds. Inr (x @ y @ ds))" for x y
    by (subst Cons.IH) simp
  show ?case
  proof (cases "operationsLoop tx (Envelope_Tx_Operations row) (Result_Results row) 0 []")
    case (Inl e)
    then show ?thesis
      by (simp add: Let_def tx_def [symmetric] metas_def [symmetric] SerializeForBulk_def
            o [of "b @ _"] o [of "[_]"])
  next
    case (Inr ods)
    then show ?thesis
      by (cases "MakeBulk_transactions h rows []")
         (simp_all add: Let_def tx_def [symmetric] metas_def [symmetric] SerializeForBulk_def
            o [of "b @ _"] o [of "[_]"] m r r [of "_ # _", simplified])
  qed
qed

lemma Make_NewBulkMaker:
  "Make (NewBulkMaker l t f b) =
     bindP (makeOperationsWithResults_loop t
              (map (\<lambda>row. NewTransaction row (hCloseTime (NewLedgerHeader l))) t) 0 [])
       (\<lambda>ods. Inr ((NewBulkMaker l t f b)\<lparr>buffer :=
           b @ [LedgerHeaderDoc (NewLedgerHeader l)]
             @ map TransactionDoc
                 (map (\<lambda>row. NewTransaction row (hCloseTime (NewLedgerHeader l))) t)
             @ ods
             @ makeBalancesFromMetas_loop (hSeq (NewLedgerHeader l))
                 (hCloseTime (NewLedgerHeader l)) t 0 []
             @ makeBalancesFromFeeHistory_loop (hSeq (NewLedgerHeader l))
                 (hCloseTime (NewLedgerHeader l)) f 0 []\<rparr>))"
proof -
  define h where "h = NewLedgerHeader l"
  define txs where "txs = map (\<lambda>row. NewTransaction row (hCloseTime h)) t"
  define pre where "pre = b @ [LedgerHeaderDoc h] @ map TransactionDoc txs"
  define m0 where
    "m0 = \<lparr>ledgerRow = l, ledgerHeader = h, seq = hSeq h, closeTime = hCloseTime h,
           transactionRows = t, transactions = txs, fees = f, buffer = b\<rparr>"
  have n: "NewBulkMaker l t f b = m0"
    by (simp add: NewBulkMaker_def Let_def m0_def h_def txs_def)
  have t2: "makeTransactions (makeLedger m0) = m0\<lparr>buffer := pre\<rparr>"
    by (simp add: makeTransactions_def makeLedger_def fold_TransactionDoc SerializeForBulk_def
          m0_def pre_def)
  have sel: "transactionRows m0 = t" "transactions m0 = txs" "seq m0 = hSeq h"
    "closeTime m0 = hCloseTime h" "fees m0 = f"
    by (simp_all add: m0_def)
  have ol: "makeOperationsWithResults_loop t txs 0 pre =
            bindP (makeOperationsWithResults_loop t txs 0 []) (\<lambda>ods. Inr (pre @ ods))"
    by (rule makeOperationsWithResults_loop_append)
  have ml: "makeBalancesFromMetas_loop (hSeq h) (hCloseTime h) t 0 x =
            x @ makeBalancesFromMetas_loop (hSeq h) (hCloseTime h) t 0 []" for x
    by (rule makeBalancesFromMetas_loop_append)
  have fl: "makeBalancesFromFeeHistory_loop (hSeq h) (hCloseTime h) f 0 x =
            x @ makeBalancesFromFeeHistory_loop (hSeq h) (hCloseTime h) f 0 []" for x
    by (rule makeBalancesFromFeeHistory_loop_append)
  have "Make m0 =
     bindP (makeOperationsWithResults_loop t txs 0 [])
       (\<lambda>ods. Inr (m0\<lparr>buffer := pre @ ods
             @ makeBalancesFromMetas_loop (hSeq h) (hCloseTime h) t 0 []
             @ makeBalancesFromFeeHistory_loop (hSeq h) (hCloseTime h) f 0 []\<rparr>))"
  proof (cases "makeOperationsWithResults_loop t txs 0 []")
    case (Inl e)
    then show ?thesis
      by (simp add: Make_def t2 makeOperationsWithResults_def sel ol)
  next
    case (Inr ods)
    then show ?thesis
      by (simp add: Make_def t2 makeOperationsWithResults_def sel ol
            makeBalancesFromFeeHistory_def makeBalancesFromMetas_def
            ml [of "pre @ ods"] fl [of "pre @ ods @ _"])
  qed
  then show ?thesis
    unfolding n by (simp add: h_def txs_def pre_def)
qed

lemma MakeBulk_structure:
  "MakeBulk l t f b =
     bindP (MakeBulk_transactions (NewLedgerHeader l) t [])
       (\<lambda>tds. Inr (b @ [LedgerHeaderDoc (NewLedgerHeader l)] @ tds
                    @ MakeBulk_fees (NewLedgerHeader l) f 0 []))"
proof -
  define h where "h = NewLedgerHeader l"
  have a: "MakeBulk_transactions h t (b @ [LedgerHeaderDoc h]) =
           bindP (MakeBulk_transactions h t []) (\<lambda>tds. Inr (b @ [LedgerHeaderDoc h] @ tds))"
    by (subst MakeBulk_transactions_append) simp
  have fl: "MakeBulk_fees h f 0 x = x @ MakeBulk_fees h f 0 []" for x
    by (rule MakeBulk_fees_append)
  show ?thesis
    by (cases "MakeBulk_transactions h t []")
       (simp_all add: MakeBulk_def Let_def h_def [symmetric] SerializeForBulk_def a
          fl [of "b @ _"])
qed

lemma MakeBulk_transactions_Cons:
  "MakeBulk_transactions h (row # rows) [] =
     bindP (operationsLoop (NewTransaction row (hCloseTime h)) (Envelope_Tx_Operations row)
              (Result_Results row) 0 [])
       (\<lambda>ods. bindP (MakeBulk_transactions h rows [])
          (\<lambda>rest. Inr (TransactionDoc (NewTransaction row (hCloseTime h)) # ods
             @ metasLoop (hSeq h) (hCloseTime h) (txIndex (NewTransaction row (hCloseTime h)))
                 (case GetV1 (Meta row) of
                    Some v1 \<Rightarrow> V1Operations v1
                  | None \<Rightarrow> (case GetOperations (Meta row) of Some ms \<Rightarrow> ms | None \<Rightarrow> []))
                 0 []
             @ rest)))"
proof -
  define tx where "tx = NewTransaction row (hCloseTime h)"
  define metas where
    "metas = (case GetV1 (Meta row) of Some v1 \<Rightarrow> V1Operations v1
              | None \<Rightarrow> (case GetOperations (Meta row) of Some ms \<Rightarrow> ms | None \<Rightarrow> []))"
  define ml where "ml = metasLoop (hSeq h) (hCloseTime h) (txIndex tx) metas 0 []"
  have m: "metasLoop (hSeq h) (hCloseTime h) (txIndex tx) metas 0 x = x @ ml" for x
    unfolding ml_def by (rule metasLoop_append)
  have o: "operationsLoop tx (Envelope_Tx_Operations row) (Result_Results row) 0 [d] =
           bindP (operationsLoop tx (Envelope_Tx_Operations row) (Result_Results row) 0 [])
             (\<lambda>ds. Inr (d # ds))" for d
    by (subst operationsLoop_append) simp
  have r: "MakeBulk_transactions h rows (x # y) =
           bindP (MakeBulk_transactions h rows []) (\<lambda>ds. Inr (x # y @ ds))" for x y
    by (subst MakeBulk_transactions_append) simp
  show ?thesis
  proof (cases "operationsLoop tx (Envelope_Tx_Operations row) (Result_Results row) 0 []")
    case (Inl e)
    then show ?thesis
      by (simp add: Let_def tx_def [symmetric] metas_def [symmetric] SerializeForBulk_def o)
  next
    case (Inr ods)
    then show ?thesis
      by (cases "MakeBulk_transactions h rows []")
         (simp_all add: Let_def tx_def [symmetric] metas_def [symmetric] SerializeForBulk_def
            o m r ml_def [symmetric])
  qed
qed

lemmas bulk_eval =
  Make_def NewBulkMaker_def makeLedger_def makeTransactions_def makeOperationsWithResults_def
  makeBalancesFromMetas_def makeBalancesFromFeeHistory_def MakeBulk_def NewLedgerHeader_def
  SerializeForBulk_def NewOperation_def Let_def serializeBalances_def Extract_def
  NewBalanceExtractor_def List.map_filter_simps fakeOperationIndex_def
  balanceFromFeeAuxOrder_def balanceFromMetaAuxOrder_def

section \<open>Paging tokens of the Balance documents\<close>

text \<open>
  The extractor stamps what it was built with. The metadata pass and the fee pass of
  \<^verbatim>\<open>BulkMaker\<close> number the rows from 1; the fee loop of \<^verbatim>\<open>MakeBulk\<close> numbers them from 0.
\<close>

lemma Extract_stamp:
  "bal \<in> set (Extract e) \<Longrightarrow>
   balPagingToken bal = exPagingToken e \<and> balSource bal = exSource e
     \<and> balCreatedAt bal = exCloseTime e"
  by (auto simp: Extract_def List.map_filter_def split: option.splits)

lemma metasLoop_tokens:
  "BalanceDoc bal \<in> set (metasLoop s ct to metas k []) \<Longrightarrow>
   \<exists>j<length metas.
     balPagingToken bal =
       \<lparr>LedgerSeq = s, TransactionOrder = to, OperationOrder = of_nat (k + j + 1),
        AuxOrder1 = 1\<rparr>
     \<and> balSource bal = BalanceSourceMeta \<and> balCreatedAt bal = ct"
proof (induction metas arbitrary: k)
  case Nil
  then show ?case by simp
next
  case (Cons e es)
  let ?tok = "\<lparr>LedgerSeq = s, TransactionOrder = to, OperationOrder = of_nat (k + 1),
               AuxOrder1 = 1\<rparr>"
  let ?bl = "Extract (NewBalanceExtractor (omChanges e) ct BalanceSourceMeta ?tok)"
  have "metasLoop s ct to (e # es) k [] = map BalanceDoc ?bl @ metasLoop s ct to es (Suc k) []"
    by (simp add: Let_def serializeBalances_eq metasLoop_append [of _ _ _ _ _ "map BalanceDoc _"])
  with Cons.prems consider "bal \<in> set ?bl" | "BalanceDoc bal \<in> set (metasLoop s ct to es (Suc k) [])"
    by auto
  then show ?case
  proof cases
    case 1
    from Extract_stamp [OF this] show ?thesis
      by (intro exI [of _ 0]) (simp add: NewBalanceExtractor_def)
  next
    case 2
    from Cons.IH [OF this] obtain o' where "o' < length es"
      "balPagingToken bal =
         \<lparr>LedgerSeq = s, TransactionOrder = to, OperationOrder = of_nat (Suc k + o' + 1),
          AuxOrder1 = 1\<rparr>
       \<and> balSource bal = BalanceSourceMeta \<and> balCreatedAt bal = ct"
      by blast
    then show ?thesis
      by (intro exI [of _ "Suc o'"]) simp
  qed
qed

lemma makeBalancesFromMetas_loop_tokens:
  "BalanceDoc bal \<in> set (makeBalancesFromMetas_loop s ct rows k []) \<Longrightarrow>
   \<exists>t<length rows. \<exists>j.
     balPagingToken bal =
       \<lparr>LedgerSeq = s, TransactionOrder = of_nat (k + t + 1), OperationOrder = of_nat (j + 1),
        AuxOrder1 = 1\<rparr>
     \<and> balSource bal = BalanceSourceMeta \<and> balCreatedAt bal = ct"
proof (induction rows arbitrary: k)
  case Nil
  then show ?case by simp
next
  case (Cons row rows)
  have split:
    "makeBalancesFromMetas_loop s ct rows (Suc k) (metasLoop s ct to ms 0 []) =
       metasLoop s ct to ms 0 [] @ makeBalancesFromMetas_loop s ct rows (Suc k) []" for to ms
    by (rule makeBalancesFromMetas_loop_append)
  from Cons.prems obtain ms where
    "BalanceDoc bal \<in> set (metasLoop s ct (of_nat (k + 1)) ms 0 [])
     \<or> BalanceDoc bal \<in> set (makeBalancesFromMetas_loop s ct rows (Suc k) [])"
    by (cases "GetV1 (Meta row)"; cases "GetOperations (Meta row)") (auto simp: split)
  then show ?case
  proof
    assume "BalanceDoc bal \<in> set (metasLoop s ct (of_nat (k + 1)) ms 0 [])"
    from metasLoop_tokens [OF this] show ?thesis
      by (intro exI [of _ 0]) auto
  next
    assume "BalanceDoc bal \<in> set (makeBalancesFromMetas_loop s ct rows (Suc k) [])"
    from Cons.IH [OF this] obtain t o' where "t < length rows"
      "balPagingToken bal =
         \<lparr>LedgerSeq = s, TransactionOrder = of_nat (Suc k + t + 1),
          OperationOrder = of_nat (o' + 1), AuxOrder1 = 1\<rparr>
       \<and> balSource bal = BalanceSourceMeta \<and> balCreatedAt bal = ct"
      by blast
    then show ?thesis
      by (intro exI [of _ "Suc t"]) auto
  qed
qed

lemma makeBalancesFromFeeHistory_loop_tokens:
  "BalanceDoc bal \<in> set (makeBalancesFromFeeHistory_loop s ct fs k []) \<Longrightarrow>
   \<exists>t<length fs.
     balPagingToken bal =
       \<lparr>LedgerSeq = s, TransactionOrder = of_nat (k + t + 1), OperationOrder = 255,
        AuxOrder1 = 2\<rparr>
     \<and> balSource bal = BalanceSourceFee \<and> balCreatedAt bal = ct"
proof (induction fs arbitrary: k)
  case Nil
  then show ?case by simp
next
  case (Cons fee fs)
  let ?tok = "\<lparr>LedgerSeq = s, TransactionOrder = of_nat (k + 1), OperationOrder = 255,
               AuxOrder1 = 2\<rparr>"
  let ?bl = "Extract (NewBalanceExtractor (Changes fee) ct BalanceSourceFee ?tok)"
  have "makeBalancesFromFeeHistory_loop s ct (fee # fs) k [] =
          map BalanceDoc ?bl @ makeBalancesFromFeeHistory_loop s ct fs (Suc k) []"
    by (simp add: Let_def serializeBalances_eq fakeOperationIndex_def balanceFromFeeAuxOrder_def
          makeBalancesFromFeeHistory_loop_append [of _ _ _ _ "map BalanceDoc _"])
  with Cons.prems consider "bal \<in> set ?bl"
    | "BalanceDoc bal \<in> set (makeBalancesFromFeeHistory_loop s ct fs (Suc k) [])"
    by auto
  then show ?case
  proof cases
    case 1
    from Extract_stamp [OF this] show ?thesis
      by (intro exI [of _ 0]) (simp add: NewBalanceExtractor_def)
  next
    case 2
    from Cons.IH [OF this] obtain t where "t < length fs"
      "balPagingToken bal =
         \<lparr>LedgerSeq = s, TransactionOrder = of_nat (Suc k + t + 1), OperationOrder = 255,
          AuxOrder1 = 2\<rparr>
       \<and> balSource bal = BalanceSourceFee \<and> balCreatedAt bal = ct"
      by blast
    then show ?thesis
      by (intro exI [of _ "Suc t"]) simp
  qed
qed

lemma MakeBulk_fees_tokens:
  "BalanceDoc bal \<in> set (MakeBulk_fees h fs k []) \<Longrightarrow>
   \<exists>t<length fs.
     balPagingToken bal =
       \<lparr>LedgerSeq = hSeq h, TransactionOrder = of_nat (k + t), OperationOrder = 255,
        AuxOrder1 = 2\<rparr>"
proof (induction fs arbitrary: k)
  case Nil
  then show ?case by simp
next
  case (Cons fee fs)
  let ?tok = "\<lparr>LedgerSeq = hSeq h, TransactionOrder = of_nat k, OperationOrder = 255,
               AuxOrder1 = 2\<rparr>"
  let ?bl = "Extract (NewBalanceExtractor (Changes fee) (hCloseTime h) BalanceSourceFee ?tok)"
  have "MakeBulk_fees h (fee # fs) k [] = map BalanceDoc ?bl @ MakeBulk_fees h fs (Suc k) []"
    by (simp add: Let_def serializeBalances_eq MakeBulk_fees_append [of _ _ _ "map BalanceDoc _"])
  with Cons.prems consider "bal \<in> set ?bl" | "BalanceDoc bal \<in> set (MakeBulk_fees h fs (Suc k) [])"
    by auto
  then show ?case
  proof cases
    case 1
    from Extract_stamp [OF this] show ?thesis
      by (intro exI [of _ 0]) (simp add: NewBalanceExtractor_def)
  next
    case 2
    from Cons.IH [OF this] obtain t where "t < length fs"
      "balPagingToken bal =
         \<lparr>LedgerSeq = hSeq h, TransactionOrder = of_nat (Suc k + t), OperationOrder = 255,
          AuxOrder1 = 2\<rparr>"
      by blast
    then show ?thesis
      by (intro exI [of _ "Suc t"]) simp
  qed
qed

text \<open>
  Claim C1 (every Balance document of the bulk assembly carries the ledger sequence, the
  1-based index of its transaction, the 1-based position of the operation or the
  sentinel 255, and the auxiliary order 1 or 2). \<^verbatim>\<open>BulkMaker\<close> builds these tokens (the
  lemmas above, the orders being bytes), and the metadata loop of \<^verbatim>\<open>MakeBulk\<close> passes the
  index stored in the Transaction document; the fee loop of \<^verbatim>\<open>MakeBulk\<close> passes
  \<^verbatim>\<open>uint8(o)\<close>, the 0-based position of the fee row. Evaluated on a ledger with one
  transaction (index 1, one operation, one account updated by it) and its fee row (the
  account updated by the charge): \<^verbatim>\<open>MakeBulk\<close> stamps the fee balance with the transaction
  order 0, next to the order 1 on the balance of the same transaction's metadata;
  \<^verbatim>\<open>BulkMaker\<close> stamps both with 1. The documents before the balances are the header, the
  transaction and the operation.
\<close>

theorem fee_balance_transaction_order:
  "map_sum id (map (\<lambda>d. case d of BalanceDoc bal \<Rightarrow> Some (balPagingToken bal) | _ \<Rightarrow> None))
     (MakeBulk \<lparr>rowLedgerSeq = 7, rowCloseTime = 1000\<rparr>
        [\<lparr>rowTxID = ''ab'', rowTxLedgerSeq = 7, rowIndex = 1, rowSourceAccount = ''GA'',
          rowMemo = None,
          Envelope_Tx_Operations = [\<lparr>SourceAccount = None, Body = OtherOperation 9\<rparr>],
          Result_Results = None,
          Meta = MetaOperations [\<lparr>omChanges = [LedgerEntryUpdated (AccountEntry ''GA'' 5)]\<rparr>]\<rparr>]
        [\<lparr>Changes = [LedgerEntryUpdated (AccountEntry ''GA'' 4)]\<rparr>] [])
     = Inr [None, None, None,
            Some \<lparr>LedgerSeq = 7, TransactionOrder = 1, OperationOrder = 1, AuxOrder1 = 1\<rparr>,
            Some \<lparr>LedgerSeq = 7, TransactionOrder = 0, OperationOrder = 255, AuxOrder1 = 2\<rparr>]
   \<and> map_sum id (map (\<lambda>d. case d of BalanceDoc bal \<Rightarrow> Some (balPagingToken bal) | _ \<Rightarrow> None)
                  \<circ> buffer)
     (Make (NewBulkMaker \<lparr>rowLedgerSeq = 7, rowCloseTime = 1000\<rparr>
        [\<lparr>rowTxID = ''ab'', rowTxLedgerSeq = 7, rowIndex = 1, rowSourceAccount = ''GA'',
          rowMemo = None,
          Envelope_Tx_Operations = [\<lparr>SourceAccount = None, Body = OtherOperation 9\<rparr>],
          Result_Results = None,
          Meta = MetaOperations [\<lparr>omChanges = [LedgerEntryUpdated (AccountEntry ''GA'' 5)]\<rparr>]\<rparr>]
        [\<lparr>Changes = [LedgerEntryUpdated (AccountEntry ''GA'' 4)]\<rparr>] []))
     = Inr [None, None, None,
            Some \<lparr>LedgerSeq = 7, TransactionOrder = 1, OperationOrder = 1, AuxOrder1 = 1\<rparr>,
            Some \<lparr>LedgerSeq = 7, TransactionOrder = 1, OperationOrder = 255, AuxOrder1 = 2\<rparr>]"
  by (simp add: bulk_eval NewTransaction_def)

section \<open>Emission order\<close>



section \<open>Merging the results into the operations\<close>

text \<open>
  Claim C5, as amended. When the transaction carries no per-operation results, every
  Operation document is the one \<^verbatim>\<open>NewOperation\<close> built, with success = true and result
  code 0. When it carries results and the loop returns, the results are at least as many
  as the operations, and the document at index \<open>i\<close> is the decoded operation merged with
  the result at index \<open>i\<close>; results beyond the last operation are ignored. When every
  operation decodes, the loop returns if the results are absent or at least as many as
  the operations, and panics with an index out of range if they are fewer.
\<close>

theorem operation_results_merge:
  "(operationsLoop tx ops None 0 b = Inr b' \<longrightarrow>
      (\<exists>os. b' = b @ map OperationDoc os \<and> length os = length ops \<and>
         (\<forall>i<length ops. NewOperation tx (ops ! i) (of_nat i) = Inr (os ! i)
              \<and> Succesful (os ! i) \<and> ResultCode (os ! i) = 0)))
   \<and> (operationsLoop tx ops (Some rs) 0 b = Inr b' \<longrightarrow>
      length ops \<le> length rs \<and>
      (\<exists>os. b' = b @ map OperationDoc os \<and> length os = length ops \<and>
         (\<forall>i<length ops. \<exists>op. NewOperation tx (ops ! i) (of_nat i) = Inr op
              \<and> os ! i = AppendResult op (rs ! i))))
   \<and> ((\<forall>i<length ops. \<exists>op. NewOperation tx (ops ! i) (of_nat i) = Inr op) \<longrightarrow>
        (\<exists>b'. operationsLoop tx ops None 0 b = Inr b')
      \<and> (length ops \<le> length rs \<longrightarrow> (\<exists>b'. operationsLoop tx ops (Some rs) 0 b = Inr b'))
      \<and> (length rs < length ops \<longrightarrow>
            operationsLoop tx ops (Some rs) 0 b = Inl IndexOutOfRange))"
proof (intro conjI impI)
  assume a: "operationsLoop tx ops None 0 b = Inr b'"
  then obtain ds where l: "operationsLoop tx ops None 0 [] = Inr ds" and b': "b' = b @ ds"
    by (subst (asm) operationsLoop_append) (auto simp: bindP_eq_Inr)
  from operationsLoop_Inr_D [OF l] obtain os where
    ds: "ds = map OperationDoc os" and len: "length os = length ops" and
    e: "\<And>i. i < length ops \<Longrightarrow>
          \<exists>op. NewOperation tx (ops ! i) (of_nat (0 + i)) = Inr op
             \<and> mergeResult None (0 + i) op = Inr (os ! i)"
    by blast
  have "NewOperation tx (ops ! i) (of_nat i) = Inr (os ! i)
          \<and> Succesful (os ! i) \<and> ResultCode (os ! i) = 0" if "i < length ops" for i
  proof -
    from e [OF that] have n: "NewOperation tx (ops ! i) (of_nat i) = Inr (os ! i)"
      by (simp add: mergeResult_def)
    with NewOperation_Inr_defaults [OF n] show ?thesis by simp
  qed
  with b' ds len
  show "\<exists>os. b' = b @ map OperationDoc os \<and> length os = length ops \<and>
         (\<forall>i<length ops. NewOperation tx (ops ! i) (of_nat i) = Inr (os ! i)
              \<and> Succesful (os ! i) \<and> ResultCode (os ! i) = 0)"
    by blast
next
  assume a: "operationsLoop tx ops (Some rs) 0 b = Inr b'"
  then obtain ds where l: "operationsLoop tx ops (Some rs) 0 [] = Inr ds" and b': "b' = b @ ds"
    by (subst (asm) operationsLoop_append) (auto simp: bindP_eq_Inr)
  from operationsLoop_Inr_D [OF l] obtain os where
    ds: "ds = map OperationDoc os" and len: "length os = length ops" and
    e: "\<And>i. i < length ops \<Longrightarrow>
          \<exists>op. NewOperation tx (ops ! i) (of_nat (0 + i)) = Inr op
             \<and> mergeResult (Some rs) (0 + i) op = Inr (os ! i)"
    by blast
  have m: "\<exists>op. NewOperation tx (ops ! i) (of_nat i) = Inr op
             \<and> os ! i = AppendResult op (rs ! i) \<and> i < length rs" if "i < length ops" for i
    using e [OF that] by (auto simp: mergeResult_def split: if_splits)
  show "length ops \<le> length rs"
  proof (cases ops)
    case Nil
    then show ?thesis by simp
  next
    case (Cons o' ops')
    then have "length ops - 1 < length ops" by simp
    from m [OF this] have "length ops - 1 < length rs" by blast
    then show ?thesis by simp
  qed
  from m b' ds len
  show "\<exists>os. b' = b @ map OperationDoc os \<and> length os = length ops \<and>
         (\<forall>i<length ops. \<exists>op. NewOperation tx (ops ! i) (of_nat i) = Inr op
              \<and> os ! i = AppendResult op (rs ! i))"
    by blast
next
  assume d: "\<forall>i<length ops. \<exists>op. NewOperation tx (ops ! i) (of_nat i) = Inr op"
  then have "\<forall>i<length ops. \<exists>op op'. NewOperation tx (ops ! i) (of_nat (0 + i)) = Inr op
                \<and> mergeResult None (0 + i) op = Inr op'"
    by (simp add: mergeResult_def)
  from operationsLoop_total [OF this] obtain ds where "operationsLoop tx ops None 0 [] = Inr ds" ..
  then show "\<exists>b'. operationsLoop tx ops None 0 b = Inr b'"
    by (subst operationsLoop_append) simp
next
  assume d: "\<forall>i<length ops. \<exists>op. NewOperation tx (ops ! i) (of_nat i) = Inr op"
     and le: "length ops \<le> length rs"
  then have "\<forall>i<length ops. \<exists>op op'. NewOperation tx (ops ! i) (of_nat (0 + i)) = Inr op
                \<and> mergeResult (Some rs) (0 + i) op = Inr op'"
    by (auto simp: mergeResult_def)
  from operationsLoop_total [OF this] obtain ds where
    "operationsLoop tx ops (Some rs) 0 [] = Inr ds" ..
  then show "\<exists>b'. operationsLoop tx ops (Some rs) 0 b = Inr b'"
    by (subst operationsLoop_append) simp
next
  assume d: "\<forall>i<length ops. \<exists>op. NewOperation tx (ops ! i) (of_nat i) = Inr op"
     and sh: "length rs < length ops"
  then have ne: "ops \<noteq> []" by auto
  from d have d': "\<forall>i<length ops. \<exists>op. NewOperation tx (ops ! i) (of_nat (0 + i)) = Inr op"
    by simp
  from sh have sh': "length rs < 0 + length ops" by simp
  from operationsLoop_short_results [OF d' sh' ne]
  show "operationsLoop tx ops (Some rs) 0 b = Inl IndexOutOfRange"
    by (subst operationsLoop_append) simp
qed

theorem operation_results_merge_witness:
  "map_sum id (map (\<lambda>d. case d of OperationDoc op \<Rightarrow> Some (Succesful op, ResultCode op)
                                   | _ \<Rightarrow> None))
     (operationsLoop
        \<lparr>txID = ''ab'', txIndex = 1, txSeq = 7, txOrder = ''7:1'', txCloseTime = 1000,
         txSourceAccountID = ''GA'', txMemo = None\<rparr>
        [\<lparr>SourceAccount = None, Body = OtherOperation 9\<rparr>,
         \<lparr>SourceAccount = None, Body = OtherOperation 8\<rparr>]
        None 0 [])
     = Inr [Some (True, 0), Some (True, 0)]
   \<and> map_sum id (map (\<lambda>d. case d of OperationDoc op \<Rightarrow> Some (Succesful op, ResultCode op)
                                   | _ \<Rightarrow> None))
     (operationsLoop
        \<lparr>txID = ''ab'', txIndex = 1, txSeq = 7, txOrder = ''7:1'', txCloseTime = 1000,
         txSourceAccountID = ''GA'', txMemo = None\<rparr>
        [\<lparr>SourceAccount = None, Body = OtherOperation 9\<rparr>,
         \<lparr>SourceAccount = None, Body = OtherOperation 8\<rparr>]
        (Some [\<lparr>orSuccess = False, orCode = - 1\<rparr>, \<lparr>orSuccess = True, orCode = 0\<rparr>,
               \<lparr>orSuccess = True, orCode = 5\<rparr>]) 0 [])
     = Inr [Some (False, - 1), Some (True, 0)]
   \<and> operationsLoop
        \<lparr>txID = ''ab'', txIndex = 1, txSeq = 7, txOrder = ''7:1'', txCloseTime = 1000,
         txSourceAccountID = ''GA'', txMemo = None\<rparr>
        [\<lparr>SourceAccount = None, Body = OtherOperation 9\<rparr>,
         \<lparr>SourceAccount = None, Body = OtherOperation 8\<rparr>]
        (Some [\<lparr>orSuccess = False, orCode = - 1\<rparr>]) 0 []
     = Inl IndexOutOfRange"
  using operation_results_merge
          [of "\<lparr>txID = ''ab'', txIndex = 1, txSeq = 7, txOrder = ''7:1'', txCloseTime = 1000,
                txSourceAccountID = ''GA'', txMemo = None\<rparr>"
              "[\<lparr>SourceAccount = None, Body = OtherOperation 9\<rparr>,
                \<lparr>SourceAccount = None, Body = OtherOperation 8\<rparr>]"
              "[]" _ "[\<lparr>orSuccess = False, orCode = - 1\<rparr>]"]
        operation_results_merge
          [of "\<lparr>txID = ''ab'', txIndex = 1, txSeq = 7, txOrder = ''7:1'', txCloseTime = 1000,
                txSourceAccountID = ''GA'', txMemo = None\<rparr>"
              "[\<lparr>SourceAccount = None, Body = OtherOperation 9\<rparr>,
                \<lparr>SourceAccount = None, Body = OtherOperation 8\<rparr>]"
              "[]" _
              "[\<lparr>orSuccess = False, orCode = - 1\<rparr>, \<lparr>orSuccess = True, orCode = 0\<rparr>,
                \<lparr>orSuccess = True, orCode = 5\<rparr>]"]
  by (simp add: NewOperation_def SerializeForBulk_def AppendResult_def envelope_def)

text \<open>
  Claim C5 as stated fails: on a transaction with two operations and one result, both
  builders panic with an index out of range instead of applying the one result.
\<close>

theorem results_shorter_than_operations_counterexample:
  "MakeBulk \<lparr>rowLedgerSeq = 7, rowCloseTime = 1000\<rparr>
     [\<lparr>rowTxID = ''ab'', rowTxLedgerSeq = 7, rowIndex = 1, rowSourceAccount = ''GA'',
       rowMemo = None,
       Envelope_Tx_Operations =
         [\<lparr>SourceAccount = None, Body = OtherOperation 9\<rparr>,
          \<lparr>SourceAccount = None, Body = OtherOperation 8\<rparr>],
       Result_Results = Some [\<lparr>orSuccess = False, orCode = - 1\<rparr>],
       Meta = MetaOperations []\<rparr>] [] []
     = Inl IndexOutOfRange
   \<and> Make (NewBulkMaker \<lparr>rowLedgerSeq = 7, rowCloseTime = 1000\<rparr>
     [\<lparr>rowTxID = ''ab'', rowTxLedgerSeq = 7, rowIndex = 1, rowSourceAccount = ''GA'',
       rowMemo = None,
       Envelope_Tx_Operations =
         [\<lparr>SourceAccount = None, Body = OtherOperation 9\<rparr>,
          \<lparr>SourceAccount = None, Body = OtherOperation 8\<rparr>],
       Result_Results = Some [\<lparr>orSuccess = False, orCode = - 1\<rparr>],
       Meta = MetaOperations []\<rparr>] [] [])
     = Inl IndexOutOfRange"
  by (simp add: MakeBulk_def Make_def NewBulkMaker_def makeLedger_def makeTransactions_def
        makeOperationsWithResults_def NewOperation_def Let_def)

section \<open>Transactions without operation metadata\<close>

lemma makeBalancesFromMetas_loop_stops:
  "GetV1 (Meta row) = None \<Longrightarrow> GetOperations (Meta row) = None \<Longrightarrow>
   makeBalancesFromMetas_loop s ct (pre @ row # post) k b =
     makeBalancesFromMetas_loop s ct pre k b"
proof (induction pre arbitrary: k b)
  case Nil
  then show ?case by simp
next
  case (Cons r pre)
  then show ?case
    by (cases "GetV1 (Meta r)"; cases "GetOperations (Meta r)") simp_all
qed

lemma MakeBulk_transactions_app:
  "MakeBulk_transactions h (pre @ rows) b =
     bindP (MakeBulk_transactions h pre b) (\<lambda>b1. MakeBulk_transactions h rows b1)"
proof (induction pre arbitrary: b)
  case Nil
  show ?case by simp
next
  case (Cons r pre)
  show ?case
    by (cases "operationsLoop (NewTransaction r (hCloseTime h)) (Envelope_Tx_Operations r)
                 (Result_Results r) 0
                 (SerializeForBulk (TransactionDoc (NewTransaction r (hCloseTime h))) b)")
       (simp_all add: Let_def Cons.IH)
qed

text \<open>
  Claim C10: when the meta of a transaction has neither the V1 arm nor the legacy
  operations arm, the metadata pass of \<^verbatim>\<open>BulkMaker\<close> ends there: its output is the output
  on the rows before that transaction, so neither that transaction nor a later one
  contributes a meta-derived Balance, while \<^verbatim>\<open>Make\<close> still runs the fee-history pass on
  the result. \<^verbatim>\<open>MakeBulk\<close> emits for such a transaction its Transaction and Operation
  documents and no Balance, and goes on with the remaining transactions.
\<close>

theorem meta_without_operations:
  assumes "GetV1 (Meta row) = None" and "GetOperations (Meta row) = None"
  shows "makeBalancesFromMetas_loop s ct (pre @ row # post) k b =
           makeBalancesFromMetas_loop s ct pre k b
     \<and> Make (NewBulkMaker l (pre @ row # post) f b) =
         bindP (makeOperationsWithResults_loop (pre @ row # post)
                  (map (\<lambda>r. NewTransaction r (hCloseTime (NewLedgerHeader l)))
                     (pre @ row # post)) 0 [])
           (\<lambda>ods. Inr ((NewBulkMaker l (pre @ row # post) f b)\<lparr>buffer :=
               b @ [LedgerHeaderDoc (NewLedgerHeader l)]
                 @ map TransactionDoc
                     (map (\<lambda>r. NewTransaction r (hCloseTime (NewLedgerHeader l)))
                        (pre @ row # post))
                 @ ods
                 @ makeBalancesFromMetas_loop (hSeq (NewLedgerHeader l))
                     (hCloseTime (NewLedgerHeader l)) pre 0 []
                 @ makeBalancesFromFeeHistory_loop (hSeq (NewLedgerHeader l))
                     (hCloseTime (NewLedgerHeader l)) f 0 []\<rparr>))
     \<and> MakeBulk_transactions h (pre @ row # post) b =
         bindP (MakeBulk_transactions h pre b)
           (\<lambda>b1. bindP (operationsLoop (NewTransaction row (hCloseTime h))
                           (Envelope_Tx_Operations row) (Result_Results row) 0
                           (b1 @ [TransactionDoc (NewTransaction row (hCloseTime h))]))
                    (\<lambda>b2. MakeBulk_transactions h post b2))"
proof (intro conjI)
  show "makeBalancesFromMetas_loop s ct (pre @ row # post) k b =
          makeBalancesFromMetas_loop s ct pre k b"
    using assms by (rule makeBalancesFromMetas_loop_stops)
next
  show "Make (NewBulkMaker l (pre @ row # post) f b) =
         bindP (makeOperationsWithResults_loop (pre @ row # post)
                  (map (\<lambda>r. NewTransaction r (hCloseTime (NewLedgerHeader l)))
                     (pre @ row # post)) 0 [])
           (\<lambda>ods. Inr ((NewBulkMaker l (pre @ row # post) f b)\<lparr>buffer :=
               b @ [LedgerHeaderDoc (NewLedgerHeader l)]
                 @ map TransactionDoc
                     (map (\<lambda>r. NewTransaction r (hCloseTime (NewLedgerHeader l)))
                        (pre @ row # post))
                 @ ods
                 @ makeBalancesFromMetas_loop (hSeq (NewLedgerHeader l))
                     (hCloseTime (NewLedgerHeader l)) pre 0 []
                 @ makeBalancesFromFeeHistory_loop (hSeq (NewLedgerHeader l))
                     (hCloseTime (NewLedgerHeader l)) f 0 []\<rparr>))"
    unfolding Make_NewBulkMaker makeBalancesFromMetas_loop_stops [OF assms] ..
next
  have step: "MakeBulk_transactions h (row # post) =
          (\<lambda>b1. bindP (operationsLoop (NewTransaction row (hCloseTime h))
                   (Envelope_Tx_Operations row) (Result_Results row) 0
                   (b1 @ [TransactionDoc (NewTransaction row (hCloseTime h))]))
            (\<lambda>b2. MakeBulk_transactions h post b2))"
    using assms by (intro ext) (simp add: Let_def SerializeForBulk_def)
  show "MakeBulk_transactions h (pre @ row # post) b =
         bindP (MakeBulk_transactions h pre b)
           (\<lambda>b1. bindP (operationsLoop (NewTransaction row (hCloseTime h))
                           (Envelope_Tx_Operations row) (Result_Results row) 0
                           (b1 @ [TransactionDoc (NewTransaction row (hCloseTime h))]))
                    (\<lambda>b2. MakeBulk_transactions h post b2))"
    unfolding MakeBulk_transactions_app step ..
qed

theorem meta_without_operations_witness:
  "GetV1 (MetaOther 2) = None \<and> GetOperations (MetaOther 2) = None
   \<and> map_sum id
       (map (\<lambda>d. case d of BalanceDoc bal \<Rightarrow> IndexName d @ '' '' @
                                (if balSource bal = BalanceSourceFee then ''fee'' else ''meta'')
                           | _ \<Rightarrow> IndexName d) \<circ> buffer)
       (Make (NewBulkMaker \<lparr>rowLedgerSeq = 7, rowCloseTime = 1000\<rparr>
          [\<lparr>rowTxID = ''ab'', rowTxLedgerSeq = 7, rowIndex = 1, rowSourceAccount = ''GA'',
            rowMemo = None,
            Envelope_Tx_Operations = [\<lparr>SourceAccount = None, Body = OtherOperation 9\<rparr>],
            Result_Results = None, Meta = MetaOther 2\<rparr>,
           \<lparr>rowTxID = ''cd'', rowTxLedgerSeq = 7, rowIndex = 2, rowSourceAccount = ''GA'',
            rowMemo = None,
            Envelope_Tx_Operations = [\<lparr>SourceAccount = None, Body = OtherOperation 9\<rparr>],
            Result_Results = None,
            Meta = MetaOperations [\<lparr>omChanges = [LedgerEntryUpdated (AccountEntry ''GA'' 5)]\<rparr>]\<rparr>]
          [\<lparr>Changes = [LedgerEntryUpdated (AccountEntry ''GA'' 4)]\<rparr>] []))
     = Inr [''ledgers'', ''transactions'', ''transactions'', ''operations'', ''operations'',
            ''balances fee'']
   \<and> map_sum id
       (map (\<lambda>d. case d of BalanceDoc bal \<Rightarrow> IndexName d @ '' '' @
                                (if balSource bal = BalanceSourceFee then ''fee'' else ''meta'')
                           | _ \<Rightarrow> IndexName d))
       (MakeBulk \<lparr>rowLedgerSeq = 7, rowCloseTime = 1000\<rparr>
          [\<lparr>rowTxID = ''ab'', rowTxLedgerSeq = 7, rowIndex = 1, rowSourceAccount = ''GA'',
            rowMemo = None,
            Envelope_Tx_Operations = [\<lparr>SourceAccount = None, Body = OtherOperation 9\<rparr>],
            Result_Results = None, Meta = MetaOther 2\<rparr>,
           \<lparr>rowTxID = ''cd'', rowTxLedgerSeq = 7, rowIndex = 2, rowSourceAccount = ''GA'',
            rowMemo = None,
            Envelope_Tx_Operations = [\<lparr>SourceAccount = None, Body = OtherOperation 9\<rparr>],
            Result_Results = None,
            Meta = MetaOperations [\<lparr>omChanges = [LedgerEntryUpdated (AccountEntry ''GA'' 5)]\<rparr>]\<rparr>]
          [\<lparr>Changes = [LedgerEntryUpdated (AccountEntry ''GA'' 4)]\<rparr>] [])
     = Inr [''ledgers'', ''transactions'', ''operations'', ''transactions'', ''operations'',
            ''balances meta'', ''balances fee'']"
  using meta_without_operations
          [of "\<lparr>rowTxID = ''ab'', rowTxLedgerSeq = 7, rowIndex = 1, rowSourceAccount = ''GA'',
                rowMemo = None,
                Envelope_Tx_Operations = [\<lparr>SourceAccount = None, Body = OtherOperation 9\<rparr>],
                Result_Results = None, Meta = MetaOther 2\<rparr>"
              7 1000 "[]"
              "[\<lparr>rowTxID = ''cd'', rowTxLedgerSeq = 7, rowIndex = 2, rowSourceAccount = ''GA'',
                 rowMemo = None,
                 Envelope_Tx_Operations = [\<lparr>SourceAccount = None, Body = OtherOperation 9\<rparr>],
                 Result_Results = None,
                 Meta = MetaOperations
                   [\<lparr>omChanges = [LedgerEntryUpdated (AccountEntry ''GA'' 5)]\<rparr>]\<rparr>]"
              0 "[]" "\<lparr>rowLedgerSeq = 7, rowCloseTime = 1000\<rparr>"
              "[\<lparr>Changes = [LedgerEntryUpdated (AccountEntry ''GA'' 4)]\<rparr>]"
              "\<lparr>hSeq = 7, hCloseTime = 1000\<rparr>"]
  by (simp add: bulk_eval)

end
